theory Spec2Isabelle
  imports Complex_Main
begin

section \<open>Values shared by the storage layer and the route handlers\<close>

text \<open>
  The server is an Express application over a Drizzle/PostgreSQL store
  (\<^verbatim>\<open>server/storage.ts\<close>, class \<^verbatim>\<open>DatabaseStorage\<close>) with route handlers in
  \<^verbatim>\<open>server/routes/*.ts\<close>; the tables are declared in \<^verbatim>\<open>shared/schema.ts\<close>. A table is
  modelled as the list of its rows, a query as a function of the tables, and a write as a
  function returning the new tables. A statement the database rejects raises in the
  storage method; the \<^verbatim>\<open>try/catch\<close> of the calling handler answers 500, and what was
  written before stays written (no transaction is used anywhere).

  Ids and \<^verbatim>\<open>integer\<close> columns are \<^typ>\<open>int\<close>, timestamps (\<^verbatim>\<open>Date\<close>) are milliseconds
  in \<^typ>\<open>int\<close>, and \<^verbatim>\<open>new Date()\<close> is the parameter \<open>now\<close> of every function that reads
  the clock. A finite double is the rational it denotes.
\<close>

type_synonym timestamp = int

text \<open>
  Every storage read has the shape
  \<^verbatim>\<open>const [row] = await db.select()...; return row || undefined;\<close>:
  the first row of the result, or \<^verbatim>\<open>undefined\<close>.
\<close>

fun first_row :: "'a list \<Rightarrow> 'a option" where
  "first_row [] = None"
| "first_row (r # rs) = Some r"

text \<open>
  A scalar field of a JSON request body, as far as the handlers tell the cases apart
  (\<^verbatim>\<open>typeof\<close>, truthiness, the zod checks). A JSON number is a finite double.
\<close>

datatype jsval = JUndefined | JNull | JBool bool | JNumber rat | JString string

text \<open>\<^verbatim>\<open>!v\<close> in JavaScript.\<close>

fun falsy :: "jsval \<Rightarrow> bool" where
  "falsy JUndefined = True"
| "falsy JNull = True"
| "falsy (JBool b) = (\<not> b)"
| "falsy (JNumber n) = (n = 0)"
| "falsy (JString s) = (s = [])"

text \<open>
  What a handler sends: \<^verbatim>\<open>res.status(c).json({ message })\<close> on the error paths,
  \<^verbatim>\<open>res.status(c).json(payload)\<close> otherwise (\<^verbatim>\<open>res.json\<close> is status 200).
\<close>

datatype 'a response = Failure nat string | Success nat 'a

fun status_code :: "'a response \<Rightarrow> nat" where
  "status_code (Failure c m) = c"
| "status_code (Success c x) = c"

text \<open>
  \<^verbatim>\<open>db.select().from(t).where(eq(t.col, v))\<close> and
  \<^verbatim>\<open>db.update(t).set(...).where(eq(t.col, v)).returning()\<close>: the update rewrites every
  row whose column has the value and returns the rewritten rows.
\<close>

definition select_where :: "('a \<Rightarrow> 'k) \<Rightarrow> 'k \<Rightarrow> 'a list \<Rightarrow> 'a list" where
  "select_where col v rows = filter (\<lambda>r. col r = v) rows"

definition update_where :: "('a \<Rightarrow> 'k) \<Rightarrow> 'k \<Rightarrow> ('a \<Rightarrow> 'a) \<Rightarrow> 'a list \<Rightarrow> 'a list" where
  "update_where col v f rows = map (\<lambda>r. if col r = v then f r else r) rows"

definition returning :: "('a \<Rightarrow> 'k) \<Rightarrow> 'k \<Rightarrow> ('a \<Rightarrow> 'a) \<Rightarrow> 'a list \<Rightarrow> 'a list" where
  "returning col v f rows = map f (select_where col v rows)"

text \<open>
  \<^verbatim>\<open>ensureAuthenticated\<close> (\<^verbatim>\<open>routes/middleware.ts\<close>) answers 401 unless the session
  carries a user; the handlers then read \<^verbatim>\<open>req.user!.id\<close>. A request's session is the
  id of its user, if any.
\<close>

type_synonym session = "int option"

section \<open>JavaScript numbers\<close>

text \<open>
  A JavaScript number is an IEEE 754 binary64 value: a finite double, an infinity or NaN.
  An arithmetic operation on finite doubles returns the exact result rounded to the
  nearest double, ties to the even significand, and an infinity on overflow. The sign of
  zero is not modelled (a zero is \<open>Finite 0\<close>, and dividing by it gives the infinity of the
  dividend's sign).
\<close>

datatype number = Finite rat | PosInfinity | NegInfinity | NaN

text \<open>The number of binary digits of a positive integer, and powers of two.\<close>

function bit_length :: "int \<Rightarrow> int" where
  "bit_length n = (if n \<le> 0 then 0 else 1 + bit_length (n div 2))"
  by pat_completeness auto
termination
  by (relation "measure nat") auto

declare bit_length.simps [simp del]

function pow2_nonneg :: "int \<Rightarrow> rat" where
  "pow2_nonneg e =
     (if e \<le> 0 then 1
      else if even e then (pow2_nonneg (e div 2))\<^sup>2
      else 2 * (pow2_nonneg (e div 2))\<^sup>2)"
  by pat_completeness auto
termination
  by (relation "measure nat") auto

declare pow2_nonneg.simps [simp del]

definition pow2 :: "int \<Rightarrow> rat" where
  "pow2 e = (if 0 \<le> e then pow2_nonneg e else 1 / pow2_nonneg (- e))"

text \<open>For \<open>0 < x\<close>, the exponent \<open>e\<close> with \<open>2\<^sup>e \<le> x < 2\<^sup>e\<^sup>+\<^sup>1\<close>.\<close>

definition floor_log2 :: "rat \<Rightarrow> int" where
  "floor_log2 x =
     (if 1 \<le> x then bit_length \<lfloor>x\<rfloor> - 1
      else (let n = bit_length \<lfloor>1 / x\<rfloor> - 1
            in if pow2 n = 1 / x then - n else - (n + 1)))"

definition round_half_even :: "rat \<Rightarrow> int" where
  "round_half_even m =
     (let f = \<lfloor>m\<rfloor>; r = m - rat_of_int f
      in if r < 1 / 2 then f else if 1 / 2 < r then f + 1 else if even f then f else f + 1)"

text \<open>
  Rounding a positive rational: the significand has 53 bits, so the unit in the last
  place is \<open>2\<^sup>e\<^sup>-\<^sup>5\<^sup>2\<close>, and never less than \<open>2\<^sup>-\<^sup>1\<^sup>0\<^sup>7\<^sup>4\<close> (subnormal numbers).
\<close>

definition round_magnitude :: "rat \<Rightarrow> rat" where
  "round_magnitude a =
     (let q = max (floor_log2 a - 52) (- 1074)
      in rat_of_int (round_half_even (a / pow2 q)) * pow2 q)"

definition round_double :: "rat \<Rightarrow> number" where
  "round_double x =
     (if x = 0 then Finite 0
      else (let r = round_magnitude \<bar>x\<bar>
            in if 1024 \<le> floor_log2 r then (if 0 < x then PosInfinity else NegInfinity)
               else Finite (if 0 < x then r else - r)))"

fun js_negate :: "number \<Rightarrow> number" where
  "js_negate (Finite x) = Finite (- x)"
| "js_negate PosInfinity = NegInfinity"
| "js_negate NegInfinity = PosInfinity"
| "js_negate NaN = NaN"

text \<open>\<^verbatim>\<open>a + b\<close> and \<^verbatim>\<open>a - b\<close>.\<close>

fun js_add :: "number \<Rightarrow> number \<Rightarrow> number" where
  "js_add (Finite x) (Finite y) = round_double (x + y)"
| "js_add NaN b = NaN"
| "js_add a NaN = NaN"
| "js_add PosInfinity NegInfinity = NaN"
| "js_add NegInfinity PosInfinity = NaN"
| "js_add PosInfinity b = PosInfinity"
| "js_add NegInfinity b = NegInfinity"
| "js_add a PosInfinity = PosInfinity"
| "js_add a NegInfinity = NegInfinity"

definition js_sub :: "number \<Rightarrow> number \<Rightarrow> number" where
  "js_sub a b = js_add a (js_negate b)"

text \<open>The sign of a number that is not NaN: 1, 0 or -1.\<close>

fun js_sign :: "number \<Rightarrow> int" where
  "js_sign (Finite x) = (if 0 < x then 1 else if x < 0 then - 1 else 0)"
| "js_sign PosInfinity = 1"
| "js_sign NegInfinity = - 1"
| "js_sign NaN = 0"

definition signed_infinity :: "int \<Rightarrow> number" where
  "signed_infinity s = (if s = 0 then NaN else if 0 < s then PosInfinity else NegInfinity)"

text \<open>\<^verbatim>\<open>a * b\<close>: an infinity times zero is NaN.\<close>

fun js_mul :: "number \<Rightarrow> number \<Rightarrow> number" where
  "js_mul (Finite x) (Finite y) = round_double (x * y)"
| "js_mul NaN b = NaN"
| "js_mul a NaN = NaN"
| "js_mul a b = signed_infinity (js_sign a * js_sign b)"

text \<open>\<^verbatim>\<open>a / b\<close>: zero by zero and infinity by infinity are NaN.\<close>

fun js_div :: "number \<Rightarrow> number \<Rightarrow> number" where
  "js_div (Finite x) (Finite y) =
     (if y = 0 then signed_infinity (js_sign (Finite x)) else round_double (x / y))"
| "js_div NaN b = NaN"
| "js_div a NaN = NaN"
| "js_div (Finite x) b = Finite 0"
| "js_div a (Finite y) = signed_infinity (js_sign a * (if y < 0 then - 1 else 1))"
| "js_div a b = NaN"

text \<open>\<^verbatim>\<open>Math.min(a, b)\<close>, \<^verbatim>\<open>Math.floor(a)\<close> and \<^verbatim>\<open>a >= 0\<close>.\<close>

fun js_min :: "number \<Rightarrow> number \<Rightarrow> number" where
  "js_min (Finite x) (Finite y) = Finite (min x y)"
| "js_min NaN b = NaN"
| "js_min a NaN = NaN"
| "js_min NegInfinity b = NegInfinity"
| "js_min a NegInfinity = NegInfinity"
| "js_min PosInfinity b = b"
| "js_min a PosInfinity = a"

fun js_floor :: "number \<Rightarrow> number" where
  "js_floor (Finite x) = Finite (rat_of_int \<lfloor>x\<rfloor>)"
| "js_floor a = a"

fun js_nonnegative :: "number \<Rightarrow> bool" where
  "js_nonnegative (Finite x) = (0 \<le> x)"
| "js_nonnegative PosInfinity = True"
| "js_nonnegative a = False"

section \<open>What the database rejects\<close>

datatype db_error = MalformedStatement | InvalidInteger | IntegerOutOfRange

text \<open>An \<^verbatim>\<open>integer\<close> column (and a \<^verbatim>\<open>serial\<close> id) holds 32 bits.\<close>

definition int32 :: "int \<Rightarrow> bool" where
  "int32 n \<longleftrightarrow> - 2147483648 \<le> n \<and> n \<le> 2147483647"

text \<open>
  A JavaScript number bound to an \<^verbatim>\<open>integer\<close> column, in a comparison or as the value to
  store: the statement raises unless the number is an integer of 32 bits.
\<close>

fun integer_of_number :: "number \<Rightarrow> db_error + int" where
  "integer_of_number (Finite x) =
     (if rat_of_int \<lfloor>x\<rfloor> \<noteq> x then Inl InvalidInteger
      else if int32 \<lfloor>x\<rfloor> then Inr \<lfloor>x\<rfloor>
      else Inl IntegerOutOfRange)"
| "integer_of_number a = Inl InvalidInteger"

text \<open>
  \<^verbatim>\<open>.set({ k: v, ... })\<close> writes the keys that are columns of the table and drops the
  others; when no key is a column the \<^verbatim>\<open>SET\<close> list is empty and the statement raises.
\<close>

definition settable :: "string list \<Rightarrow> string list \<Rightarrow> string list" where
  "settable columns keys = filter (\<lambda>k. k \<in> set columns) keys"

section \<open>Tables\<close>

text \<open>
  The rows of the tables as \<^verbatim>\<open>shared/schema.ts\<close> declares them, with the columns the
  modelled code reads or writes. A field has the name of the property in the schema, with
  a prefix where two tables share a name. Text columns are strings, nullable columns are
  options, and the stored amounts are finite doubles, except \<open>discountAmount\<close>, into
  which a handler can write the result of an arithmetic expression.
\<close>

record user =
  user_id :: int
  username :: string
  isAdmin :: bool
  loyaltyPoints :: int
  membershipTier :: string

text \<open>
  The usage cap of a promotion is \<^verbatim>\<open>maxUses: integer("max_uses")\<close>, nullable, and its
  counter is \<^verbatim>\<open>currentUses: integer("current_uses")\<close>; \<^verbatim>\<open>code\<close> is declared
  \<^verbatim>\<open>unique()\<close>.
\<close>

record promotion =
  promotion_id :: int
  code :: string
  description :: string
  discountType :: string
  discountValue :: rat
  minOrderAmount :: rat
  maxUses :: "int option"
  currentUses :: int
  startDate :: timestamp
  endDate :: timestamp
  isActive :: bool

record order =
  order_id :: int
  userId :: int
  status :: string
  totalAmount :: rat
  paymentId :: "string option"
  paymentStatus :: string
  deliveryAddress :: string
  contactNumber :: string
  discountAmount :: number
  loyaltyPointsRedeemed :: int
  createdAt :: timestamp
  updatedAt :: timestamp

text \<open>
  \<^verbatim>\<open>PizzaConfig\<close>: the \<^verbatim>\<open>pizzaDetails\<close> of a cart line, as the client's cart sends it. A
  component is its id here; \<open>None\<close> is a \<^verbatim>\<open>null\<close> component.
\<close>

record pizza_config =
  base :: "int option"
  sauce :: "int option"
  cheese :: "int option"
  toppings :: "int list"

record order_item =
  order_item_id :: int
  orderId :: int
  pizzaDetails :: pizza_config
  price :: rat
  quantity :: int

text \<open>
  The four catalog tables (\<^verbatim>\<open>pizza_bases\<close>, \<^verbatim>\<open>pizza_sauces\<close>, \<^verbatim>\<open>pizza_cheeses\<close>,
  \<^verbatim>\<open>pizza_toppings\<close>) have the same shape.
\<close>

record catalog_item =
  item_id :: int
  name :: string
  item_price :: rat
  stock :: int
  threshold :: int

record user_subscription =
  subscription_id :: int
  subscription_userId :: int
  planId :: int
  subscription_startDate :: timestamp
  nextDeliveryDate :: timestamp
  subscription_status :: string

text \<open>
  A notification row; the message text (which interpolates numbers) is not modelled.
\<close>

record notification =
  notification_id :: int
  notification_userId :: int
  notification_type :: string
  title :: string
  isRead :: bool
  notification_createdAt :: timestamp

text \<open>
  The state of the store: the tables, and the next value of the \<^verbatim>\<open>serial\<close> id of each
  table the modelled handlers insert into.
\<close>

record database =
  users :: "user list"
  promotions :: "promotion list"
  orders :: "order list"
  orderItems :: "order_item list"
  pizzaBases :: "catalog_item list"
  pizzaSauces :: "catalog_item list"
  pizzaCheeses :: "catalog_item list"
  pizzaToppings :: "catalog_item list"
  userSubscriptions :: "user_subscription list"
  notifications :: "notification list"
  orders_id_seq :: int
  order_items_id_seq :: int
  notifications_id_seq :: int

text \<open>
  The property names of the table objects \<^verbatim>\<open>orders\<close> and \<^verbatim>\<open>userSubscriptions\<close>, in
  the order of \<^verbatim>\<open>shared/schema.ts\<close>. Any other property of the table object is
  \<^verbatim>\<open>undefined\<close>.
\<close>

definition orders_columns :: "string list" where
  "orders_columns =
     [''id'', ''userId'', ''status'', ''totalAmount'', ''paymentId'', ''paymentStatus'',
      ''createdAt'', ''updatedAt'', ''deliveryAddress'', ''contactNumber'',
      ''estimatedDeliveryTime'', ''actualDeliveryTime'', ''deliveryPersonId'',
      ''deliveryNotes'', ''trackingUrl'', ''discountCode'', ''discountAmount'',
      ''isSubscriptionOrder'', ''subscriptionId'', ''paymentMethodId'',
      ''loyaltyPointsEarned'', ''loyaltyPointsRedeemed'']"

definition userSubscriptions_columns :: "string list" where
  "userSubscriptions_columns =
     [''id'', ''userId'', ''planId'', ''startDate'', ''nextDeliveryDate'', ''status'',
      ''paymentMethodId'', ''defaultAddressId'', ''defaultPizzaConfig'']"

section \<open>Where clauses\<close>

text \<open>
  A value in a comparison, and an operand of a comparison: a column of the table (the
  function reading it from a row), a bound parameter, or \<^verbatim>\<open>undefined\<close>, which is what a
  property the table object does not have evaluates to.
\<close>

datatype sqlval = VInt int | VNum rat | VText string | VBool bool | VNull

datatype 'r operand = Column "'r \<Rightarrow> sqlval" | Param sqlval | Undefined

text \<open>\<^verbatim>\<open>table.name\<close>: the column of that name, if the table object has one.\<close>

definition property :: "(string \<times> ('r \<Rightarrow> sqlval)) list \<Rightarrow> string \<Rightarrow> 'r operand" where
  "property tbl nm = (case map_of tbl nm of None \<Rightarrow> Undefined | Some col \<Rightarrow> Column col)"

datatype 'r comparison =
  Eq "'r operand" "'r operand"
| Lt "'r operand" "'r operand"
| Lte "'r operand" "'r operand"
| Gte "'r operand" "'r operand"

fun is_undefined :: "'r operand \<Rightarrow> bool" where
  "is_undefined Undefined = True"
| "is_undefined a = False"

text \<open>
  An \<^verbatim>\<open>undefined\<close> operand renders as nothing, so the comparison renders as an operator
  without operands and the database rejects the statement.
\<close>

fun well_formed :: "'r comparison \<Rightarrow> bool" where
  "well_formed (Eq a b) = (\<not> is_undefined a \<and> \<not> is_undefined b)"
| "well_formed (Lt a b) = (\<not> is_undefined a \<and> \<not> is_undefined b)"
| "well_formed (Lte a b) = (\<not> is_undefined a \<and> \<not> is_undefined b)"
| "well_formed (Gte a b) = (\<not> is_undefined a \<and> \<not> is_undefined b)"

fun operand_value :: "'r operand \<Rightarrow> 'r \<Rightarrow> sqlval" where
  "operand_value (Column col) r = col r"
| "operand_value (Param v) r = v"
| "operand_value Undefined r = VNull"

text \<open>
  SQL comparison of two values; with a NULL on either side the comparison is unknown and
  the row is not selected.
\<close>

fun sql_eq :: "sqlval \<Rightarrow> sqlval \<Rightarrow> bool" where
  "sql_eq (VInt a) (VInt b) = (a = b)"
| "sql_eq (VNum a) (VNum b) = (a = b)"
| "sql_eq (VInt a) (VNum b) = (rat_of_int a = b)"
| "sql_eq (VNum a) (VInt b) = (a = rat_of_int b)"
| "sql_eq (VText a) (VText b) = (a = b)"
| "sql_eq (VBool a) (VBool b) = (a = b)"
| "sql_eq a b = False"

fun sql_lt :: "sqlval \<Rightarrow> sqlval \<Rightarrow> bool" where
  "sql_lt (VInt a) (VInt b) = (a < b)"
| "sql_lt (VNum a) (VNum b) = (a < b)"
| "sql_lt (VInt a) (VNum b) = (rat_of_int a < b)"
| "sql_lt (VNum a) (VInt b) = (a < rat_of_int b)"
| "sql_lt a b = False"

fun sql_lte :: "sqlval \<Rightarrow> sqlval \<Rightarrow> bool" where
  "sql_lte (VInt a) (VInt b) = (a \<le> b)"
| "sql_lte (VNum a) (VNum b) = (a \<le> b)"
| "sql_lte (VInt a) (VNum b) = (rat_of_int a \<le> b)"
| "sql_lte (VNum a) (VInt b) = (a \<le> rat_of_int b)"
| "sql_lte a b = False"

fun holds :: "'r comparison \<Rightarrow> 'r \<Rightarrow> bool" where
  "holds (Eq a b) r = sql_eq (operand_value a r) (operand_value b r)"
| "holds (Lt a b) r = sql_lt (operand_value a r) (operand_value b r)"
| "holds (Lte a b) r = sql_lte (operand_value a r) (operand_value b r)"
| "holds (Gte a b) r = sql_lte (operand_value b r) (operand_value a r)"

text \<open>
  \<^verbatim>\<open>db.select().from(t).where(and(c1, ..., cn))\<close>: the rows satisfying every comparison,
  or the rejection of the statement.
\<close>

definition select_and :: "'r comparison list \<Rightarrow> 'r list \<Rightarrow> db_error + 'r list" where
  "select_and cs rows =
     (if list_all well_formed cs
      then Inr (filter (\<lambda>r. list_all (\<lambda>c. holds c r) cs) rows)
      else Inl MalformedStatement)"

section \<open>Storage: users and notifications\<close>

definition getUser :: "database \<Rightarrow> int \<Rightarrow> user option" where
  "getUser db i = first_row (select_where user_id i (users db))"

text \<open>
  \<^verbatim>\<open>updateUserLoyaltyPoints(id, points)\<close> \<^emph>\<open>adds\<close> \<open>points\<close> to the stored balance
  (\<^verbatim>\<open>newPoints = user.loyaltyPoints + points\<close>) and stores
  \<^verbatim>\<open>newPoints >= 0 ? newPoints : 0\<close> in the \<^verbatim>\<open>integer\<close> column \<^verbatim>\<open>loyalty_points\<close>. The
  update raises when that value is not an integer of 32 bits.
\<close>

definition updateUserLoyaltyPoints ::
  "database \<Rightarrow> int \<Rightarrow> number \<Rightarrow> db_error + (user option \<times> database)" where
  "updateUserLoyaltyPoints db i points =
     (case getUser db i of
        None \<Rightarrow> Inr (None, db)
      | Some user \<Rightarrow>
          (let newPoints = js_add (Finite (rat_of_int (loyaltyPoints user))) points
           in case integer_of_number (if js_nonnegative newPoints then newPoints else Finite 0) of
                Inl e \<Rightarrow> Inl e
              | Inr stored \<Rightarrow>
                  Inr (first_row (returning user_id i (\<lambda>r. r\<lparr>loyaltyPoints := stored\<rparr>)
                                    (users db)),
                       db\<lparr>users := update_where user_id i (\<lambda>r. r\<lparr>loyaltyPoints := stored\<rparr>)
                                       (users db)\<rparr>)))"

text \<open>
  \<^verbatim>\<open>createNotification\<close> inserts one row; the handlers pass the user, the type and the
  title, always with \<^verbatim>\<open>isRead: false\<close>.
\<close>

definition createNotification ::
  "timestamp \<Rightarrow> database \<Rightarrow> int \<Rightarrow> string \<Rightarrow> string \<Rightarrow> notification \<times> database" where
  "createNotification now db uid ty ttl =
     (let n = \<lparr> notification_id = notifications_id_seq db, notification_userId = uid,
                 notification_type = ty, title = ttl, isRead = False,
                 notification_createdAt = now \<rparr>
      in (n, db\<lparr>notifications := notifications db @ [n],
                 notifications_id_seq := notifications_id_seq db + 1\<rparr>))"

section \<open>Storage: promotions\<close>

text \<open>
  The table object \<^verbatim>\<open>promotions\<close>: its properties, in the order of
  \<^verbatim>\<open>shared/schema.ts\<close>, each with the column it reads.
\<close>

definition promotions_table :: "(string \<times> (promotion \<Rightarrow> sqlval)) list" where
  "promotions_table =
     [(''id'', \<lambda>p. VInt (promotion_id p)),
      (''code'', \<lambda>p. VText (code p)),
      (''description'', \<lambda>p. VText (description p)),
      (''discountType'', \<lambda>p. VText (discountType p)),
      (''discountValue'', \<lambda>p. VNum (discountValue p)),
      (''minOrderAmount'', \<lambda>p. VNum (minOrderAmount p)),
      (''maxUses'', \<lambda>p. case maxUses p of None \<Rightarrow> VNull | Some cap \<Rightarrow> VInt cap),
      (''currentUses'', \<lambda>p. VInt (currentUses p)),
      (''startDate'', \<lambda>p. VInt (startDate p)),
      (''endDate'', \<lambda>p. VInt (endDate p)),
      (''isActive'', \<lambda>p. VBool (isActive p))]"

text \<open>
  \<^verbatim>\<open>validatePromotion\<close>, with the \<^verbatim>\<open>where(and(...))\<close> clause as \<^verbatim>\<open>storage.ts\<close> writes
  it: the fifth comparison is
  \<^verbatim>\<open>lt(promotions.usageCount, promotions.maxUsage)\<close>.
\<close>

definition validatePromotion ::
  "timestamp \<Rightarrow> database \<Rightarrow> string \<Rightarrow> rat \<Rightarrow> db_error + promotion option" where
  "validatePromotion now db c orderAmount =
     (case select_and
             [Eq (property promotions_table ''code'') (Param (VText c)),
              Eq (property promotions_table ''isActive'') (Param (VBool True)),
              Lte (property promotions_table ''startDate'') (Param (VInt now)),
              Gte (property promotions_table ''endDate'') (Param (VInt now)),
              Lt (property promotions_table ''usageCount'')
                 (property promotions_table ''maxUsage''),
              Lte (property promotions_table ''minOrderAmount'') (Param (VNum orderAmount))]
             (promotions db) of
        Inl e \<Rightarrow> Inl e
      | Inr rows \<Rightarrow> Inr (first_row rows))"

definition getPromotionByCode :: "database \<Rightarrow> string \<Rightarrow> promotion option" where
  "getPromotionByCode db c = first_row (select_where code c (promotions db))"

text \<open>
  \<^verbatim>\<open>id.toString()\<close> of an integer id: its decimal digits, with a minus sign when
  negative.
\<close>

definition digit_char :: "nat \<Rightarrow> char" where
  "digit_char d = ''0123456789'' ! (d mod 10)"

fun toString_nat :: "nat \<Rightarrow> string" where
  "toString_nat n =
     (if n < 10 then [digit_char n] else toString_nat (n div 10) @ [digit_char (n mod 10)])"

declare toString_nat.simps [simp del]

definition toString :: "int \<Rightarrow> string" where
  "toString i = (if i < 0 then CHR ''-'' # toString_nat (nat (- i)) else toString_nat (nat i))"

text \<open>
  \<^verbatim>\<open>incrementPromotionUse(id)\<close> first reads the promotion through
  \<^verbatim>\<open>getPromotionByCode(id.toString())\<close>, that is, the row whose \<^emph>\<open>code\<close> is the decimal
  string of the id; without such a row it returns \<^verbatim>\<open>undefined\<close> and writes nothing.
  Otherwise it runs an update whose only key is \<^verbatim>\<open>usageCount\<close>, by id.
\<close>

definition incrementPromotionUse ::
  "database \<Rightarrow> int \<Rightarrow> db_error + (promotion option \<times> database)" where
  "incrementPromotionUse db i =
     (case getPromotionByCode db (toString i) of
        None \<Rightarrow> Inr (None, db)
      | Some promotion \<Rightarrow>
          if settable (map fst promotions_table) [''usageCount''] = []
          then Inl MalformedStatement
          else Inr (first_row (returning promotion_id i (\<lambda>r. r) (promotions db)),
                    db\<lparr>promotions := update_where promotion_id i (\<lambda>r. r) (promotions db)\<rparr>))"

text \<open>
  The conditions the specification lists for a promotion to be valid, on the columns of
  the schema.
\<close>

definition promotion_valid :: "timestamp \<Rightarrow> rat \<Rightarrow> promotion \<Rightarrow> bool" where
  "promotion_valid now orderAmount p \<longleftrightarrow>
     isActive p \<and> startDate p \<le> now \<and> now \<le> endDate p \<and>
     (case maxUses p of None \<Rightarrow> False | Some cap \<Rightarrow> currentUses p < cap) \<and>
     minOrderAmount p \<le> orderAmount"

section \<open>Storage: orders\<close>

text \<open>
  \<^verbatim>\<open>getOrder(id)\<close> compares the \<^verbatim>\<open>serial\<close> column \<^verbatim>\<open>orders.id\<close> with a JavaScript
  number: the value of \<^verbatim>\<open>parseInt(req.params.id)\<close> or a number of the request body.
\<close>

definition getOrder :: "database \<Rightarrow> number \<Rightarrow> db_error + order option" where
  "getOrder db n =
     (case integer_of_number n of
        Inl e \<Rightarrow> Inl e
      | Inr i \<Rightarrow> Inr (first_row (select_where order_id i (orders db))))"

text \<open>
  The three updates of an order by id, called with the id of an order just read. The keys
  passed to \<^verbatim>\<open>set\<close> are: \<^verbatim>\<open>paymentId, paymentStatus, updatedAt\<close>;
  \<^verbatim>\<open>promotionId, discountAmount, updatedAt\<close>;
  \<^verbatim>\<open>loyaltyDiscountAmount, loyaltyPointsRedeemed, updatedAt\<close>. The orders table has no
  column \<^verbatim>\<open>promotionId\<close> and no column \<^verbatim>\<open>loyaltyDiscountAmount\<close>: these two keys are
  dropped. \<^verbatim>\<open>loyaltyPointsRedeemed\<close> is an \<^verbatim>\<open>integer\<close> column.
\<close>

definition updateOrderPayment ::
  "timestamp \<Rightarrow> database \<Rightarrow> int \<Rightarrow> string \<Rightarrow> string \<Rightarrow> order option \<times> database" where
  "updateOrderPayment now db i pid pstatus =
     (let set_cols = (\<lambda>r. r\<lparr>paymentId := Some pid, paymentStatus := pstatus,
                              updatedAt := now\<rparr>)
      in (first_row (returning order_id i set_cols (orders db)),
          db\<lparr>orders := update_where order_id i set_cols (orders db)\<rparr>))"

definition updateOrderPromotion ::
  "timestamp \<Rightarrow> database \<Rightarrow> int \<Rightarrow> int \<Rightarrow> number \<Rightarrow> order option \<times> database" where
  "updateOrderPromotion now db i promo amount =
     (let set_cols = (\<lambda>r. r\<lparr>discountAmount := amount, updatedAt := now\<rparr>)
      in (first_row (returning order_id i set_cols (orders db)),
          db\<lparr>orders := update_where order_id i set_cols (orders db)\<rparr>))"

definition updateOrderLoyaltyDiscount ::
  "timestamp \<Rightarrow> database \<Rightarrow> int \<Rightarrow> number \<Rightarrow> int \<Rightarrow>
     db_error + (order option \<times> database)" where
  "updateOrderLoyaltyDiscount now db i amount points =
     (if \<not> int32 points then Inl IntegerOutOfRange
      else
        (let set_cols = (\<lambda>r. r\<lparr>loyaltyPointsRedeemed := points, updatedAt := now\<rparr>)
         in Inr (first_row (returning order_id i set_cols (orders db)),
                 db\<lparr>orders := update_where order_id i set_cols (orders db)\<rparr>)))"

section \<open>Route handlers: promotions and loyalty points\<close>

text \<open>
  \<^verbatim>\<open>z.number().positive().int()\<close>: a JSON number that is positive and integral.
\<close>

fun z_positive_int :: "jsval \<Rightarrow> int option" where
  "z_positive_int (JNumber n) =
     (if 0 < n \<and> rat_of_int \<lfloor>n\<rfloor> = n then Some \<lfloor>n\<rfloor> else None)"
| "z_positive_int v = None"

text \<open>
  The discount both promotion handlers compute, each with the same lines:
  \<^verbatim>\<open>(amount * discountValue) / 100\<close> when \<^verbatim>\<open>discountType === "percentage"\<close>, else
  \<^verbatim>\<open>discountValue\<close>; then \<^verbatim>\<open>Math.min(discountAmount, amount)\<close>.
\<close>

definition promotion_discount :: "promotion \<Rightarrow> rat \<Rightarrow> number" where
  "promotion_discount promotion amount =
     (let discountAmount =
            (if discountType promotion = ''percentage''
             then js_div (js_mul (Finite amount) (Finite (discountValue promotion))) (Finite 100)
             else Finite (discountValue promotion))
      in js_min discountAmount (Finite amount))"

record validate_reply =
  reply_promotion :: promotion
  reply_discountAmount :: number
  reply_finalAmount :: number

text \<open>
  \<^verbatim>\<open>POST /api/promotions/validate\<close> (\<^verbatim>\<open>routes/promotions.ts\<close>). It reads the store and
  writes nothing. The guard
  \<^verbatim>\<open>!code || typeof code !== 'string' || !orderAmount || typeof orderAmount !== 'number'\<close>
  lets through a non-empty string and a non-zero number. A query that raises is caught:
  \<^verbatim>\<open>res.status(500).json({ message: "Error validating promotion" })\<close>.
\<close>

definition post_promotions_validate ::
  "timestamp \<Rightarrow> database \<Rightarrow> session \<Rightarrow> jsval \<Rightarrow> jsval \<Rightarrow> validate_reply response" where
  "post_promotions_validate now db sess code_field orderAmount_field =
     (case sess of
        None \<Rightarrow> Failure 401 ''Unauthorized''
      | Some uid \<Rightarrow>
          (case (code_field, orderAmount_field) of
             (JString c, JNumber orderAmount) \<Rightarrow>
               if falsy code_field \<or> falsy orderAmount_field
               then Failure 400 ''Invalid request data''
               else
                 (case validatePromotion now db c orderAmount of
                    Inl e \<Rightarrow> Failure 500 ''Error validating promotion''
                  | Inr None \<Rightarrow> Failure 404 ''Invalid or expired promotion code''
                  | Inr (Some promotion) \<Rightarrow>
                      (let discountAmount = promotion_discount promotion orderAmount
                       in Success 200
                            \<lparr> reply_promotion = promotion,
                              reply_discountAmount = discountAmount,
                              reply_finalAmount =
                                js_sub (Finite orderAmount) discountAmount \<rparr>))
           | _ \<Rightarrow> Failure 400 ''Invalid request data''))"

record order_reply =
  reply_order :: order
  order_discountAmount :: number
  order_finalAmount :: number

text \<open>
  \<^verbatim>\<open>POST /api/orders/:id/apply-promotion\<close>; \<open>oid\<close> is the value of
  \<^verbatim>\<open>parseInt(req.params.id)\<close>. The two writes are \<^verbatim>\<open>updateOrderPromotion\<close> and then
  \<^verbatim>\<open>incrementPromotionUse\<close>; reading \<^verbatim>\<open>updatedOrder.totalAmount\<close> of an \<^verbatim>\<open>undefined\<close>
  order throws. Whatever raises or throws is caught and answered with 500.
\<close>

definition post_orders_apply_promotion ::
  "timestamp \<Rightarrow> database \<Rightarrow> session \<Rightarrow> number \<Rightarrow> jsval \<Rightarrow>
     order_reply response \<times> database" where
  "post_orders_apply_promotion now db sess oid code_field =
     (case sess of
        None \<Rightarrow> (Failure 401 ''Unauthorized'', db)
      | Some uid \<Rightarrow>
          (case code_field of
             JString c \<Rightarrow>
               if falsy code_field then (Failure 400 ''Invalid promotion code'', db)
               else
                 (case getOrder db oid of
                    Inl e \<Rightarrow> (Failure 500 ''Error applying promotion'', db)
                  | Inr None \<Rightarrow> (Failure 404 ''Order not found'', db)
                  | Inr (Some order) \<Rightarrow>
                      if userId order \<noteq> uid
                      then (Failure 403 ''Unauthorized access to this order'', db)
                      else
                        (case validatePromotion now db c (totalAmount order) of
                           Inl e \<Rightarrow> (Failure 500 ''Error applying promotion'', db)
                         | Inr None \<Rightarrow>
                             (Failure 404 ''Invalid or expired promotion code'', db)
                         | Inr (Some promotion) \<Rightarrow>
                             (let discountAmount =
                                    promotion_discount promotion (totalAmount order);
                                  (updatedOrder, db1) =
                                    updateOrderPromotion now db (order_id order)
                                      (promotion_id promotion) discountAmount
                              in (case incrementPromotionUse db1 (promotion_id promotion) of
                                    Inl e \<Rightarrow> (Failure 500 ''Error applying promotion'', db1)
                                  | Inr (incremented, db2) \<Rightarrow>
                                      (case updatedOrder of
                                         None \<Rightarrow>
                                           (Failure 500 ''Error applying promotion'', db2)
                                       | Some updated \<Rightarrow>
                                           (Success 200
                                              \<lparr> reply_order = updated,
                                                order_discountAmount = discountAmount,
                                                order_finalAmount =
                                                  js_sub (Finite (totalAmount updated))
                                                    discountAmount \<rparr>,
                                            db2))))))
           | _ \<Rightarrow> (Failure 400 ''Invalid promotion code'', db)))"

record redeem_reply =
  redeem_order :: order
  redeem_discountAmount :: number
  redeem_finalAmount :: number
  remainingPoints :: int

text \<open>
  \<^verbatim>\<open>POST /api/loyalty-points/redeem\<close>. After the checks it computes
  \<^verbatim>\<open>points * 0.1\<close>, takes the minimum with the order total, writes the order
  (\<^verbatim>\<open>updateOrderLoyaltyDiscount\<close>), then calls
  \<^verbatim>\<open>updateUserLoyaltyPoints(req.user!.id, user.loyaltyPoints - points)\<close>, then creates
  a notification. \<^verbatim>\<open>0.1\<close> is the double nearest to one tenth.
\<close>

definition post_loyalty_points_redeem ::
  "timestamp \<Rightarrow> database \<Rightarrow> session \<Rightarrow> jsval \<Rightarrow> jsval \<Rightarrow> redeem_reply response \<times> database" where
  "post_loyalty_points_redeem now db sess points_field orderId_field =
     (case sess of
        None \<Rightarrow> (Failure 401 ''Unauthorized'', db)
      | Some uid \<Rightarrow>
          (case (z_positive_int points_field, z_positive_int orderId_field) of
             (Some points, Some oid) \<Rightarrow>
               (case getUser db uid of
                  None \<Rightarrow> (Failure 404 ''User not found'', db)
                | Some user \<Rightarrow>
                    if loyaltyPoints user < points
                    then (Failure 400 ''Insufficient loyalty points'', db)
                    else
                      (case getOrder db (Finite (rat_of_int oid)) of
                         Inl e \<Rightarrow> (Failure 500 ''Error redeeming loyalty points'', db)
                       | Inr None \<Rightarrow> (Failure 404 ''Order not found'', db)
                       | Inr (Some order) \<Rightarrow>
                           if userId order \<noteq> uid
                           then (Failure 403 ''Unauthorized access to this order'', db)
                           else
                             (let discountAmount =
                                    js_mul (Finite (rat_of_int points)) (round_double (1 / 10));
                                  actualDiscount =
                                    js_min discountAmount (Finite (totalAmount order))
                              in (case updateOrderLoyaltyDiscount now db oid actualDiscount
                                         points of
                                    Inl e \<Rightarrow>
                                      (Failure 500 ''Error redeeming loyalty points'', db)
                                  | Inr (updatedOrder, db1) \<Rightarrow>
                                      (case updateUserLoyaltyPoints db1 uid
                                              (js_sub (Finite (rat_of_int (loyaltyPoints user)))
                                                 (Finite (rat_of_int points))) of
                                         Inl e \<Rightarrow>
                                           (Failure 500 ''Error redeeming loyalty points'', db1)
                                       | Inr (updatedUser, db2) \<Rightarrow>
                                           (let (created, db3) =
                                                  createNotification now db2 uid
                                                    ''points_redeemed''
                                                    ''Loyalty Points Redeemed''
                                            in (case (updatedOrder, updatedUser) of
                                                  (Some updated, Some u) \<Rightarrow>
                                                    (Success 200
                                                       \<lparr> redeem_order = updated,
                                                         redeem_discountAmount = actualDiscount,
                                                         redeem_finalAmount =
                                                           js_sub (Finite (totalAmount updated))
                                                             actualDiscount,
                                                         remainingPoints = loyaltyPoints u \<rparr>,
                                                     db3)
                                                | _ \<Rightarrow>
                                                    (Failure 500
                                                       ''Error redeeming loyalty points'',
                                                     db3))))))))
           | _ \<Rightarrow> (Failure 400 ''Invalid redemption data'', db)))"

section \<open>Route handler: payment\<close>

text \<open>
  The body of \<^verbatim>\<open>POST /api/process-payment\<close>. \<open>body_cardDetails_ok\<close> says that
  \<^verbatim>\<open>cardDetails\<close> is absent or passes its nested schema; the handler never reads it.
\<close>

record payment_body =
  body_orderId :: jsval
  body_paymentMethodId :: jsval
  body_amount :: jsval
  body_currency :: jsval
  body_cardDetails_ok :: bool

text \<open>
  \<^verbatim>\<open>paymentSchema.safeParse\<close>: \<^verbatim>\<open>orderId: z.number()\<close>,
  \<^verbatim>\<open>paymentMethodId: z.number().optional()\<close>, \<^verbatim>\<open>amount: z.number().positive()\<close>,
  \<^verbatim>\<open>currency: z.string().default("USD")\<close>. The result is the order id and the amount.
\<close>

definition paymentSchema :: "payment_body \<Rightarrow> (rat \<times> rat) option" where
  "paymentSchema b =
     (case (body_orderId b, body_amount b) of
        (JNumber oid, JNumber amount) \<Rightarrow>
          if (case body_paymentMethodId b of JUndefined \<Rightarrow> True | JNumber m \<Rightarrow> True
              | _ \<Rightarrow> False) \<and>
             0 < amount \<and>
             (case body_currency b of JUndefined \<Rightarrow> True | JString cur \<Rightarrow> True
              | _ \<Rightarrow> False) \<and>
             body_cardDetails_ok b
          then Some (oid, amount) else None
      | _ \<Rightarrow> None)"

record payment_reply =
  reply_success :: bool
  reply_orderId :: rat
  reply_paymentId :: string
  reply_paymentStatus :: string
  reply_updatedOrder :: "order option"

text \<open>
  \<^verbatim>\<open>POST /api/process-payment\<close> (\<^verbatim>\<open>routes/payment.ts\<close>). The payment id is built from
  the clock and \<^verbatim>\<open>Math.random()\<close>; it is the parameter \<open>pid\<close>. After the amount check the
  handler marks the order (\<^verbatim>\<open>updateOrderPayment\<close>), then credits
  \<^verbatim>\<open>Math.floor(amount / 10)\<close> through \<^verbatim>\<open>updateUserLoyaltyPoints\<close>. When that update
  raises, the handler answers 500 and the order stays marked.
\<close>

definition post_process_payment ::
  "timestamp \<Rightarrow> string \<Rightarrow> database \<Rightarrow> session \<Rightarrow> payment_body \<Rightarrow>
     payment_reply response \<times> database" where
  "post_process_payment now pid db sess b =
     (case sess of
        None \<Rightarrow> (Failure 401 ''Unauthorized'', db)
      | Some uid \<Rightarrow>
          (case paymentSchema b of
             None \<Rightarrow> (Failure 400 ''Invalid payment data'', db)
           | Some (oid, amount) \<Rightarrow>
               (case getOrder db (Finite oid) of
                  Inl e \<Rightarrow> (Failure 500 ''Error processing payment'', db)
                | Inr None \<Rightarrow> (Failure 404 ''Order not found'', db)
                | Inr (Some order) \<Rightarrow>
                    if userId order \<noteq> uid
                    then (Failure 403 ''Unauthorized access to this order'', db)
                    else if amount \<noteq> totalAmount order
                    then (Failure 400 ''Payment amount does not match order total'', db)
                    else
                      (let paymentStatus' = ''completed'';
                           (updatedOrder, db1) =
                             updateOrderPayment now db (order_id order) pid paymentStatus'
                       in (case updateUserLoyaltyPoints db1 uid
                                  (js_floor (js_div (Finite amount) (Finite 10))) of
                             Inl e \<Rightarrow> (Failure 500 ''Error processing payment'', db1)
                           | Inr (updatedUser, db2) \<Rightarrow>
                               (Success 200
                                  \<lparr> reply_success = True, reply_orderId = oid,
                                    reply_paymentId = pid,
                                    reply_paymentStatus = paymentStatus',
                                    reply_updatedOrder = updatedOrder \<rparr>,
                                db2))))))"

section \<open>Subscriptions\<close>

definition getUserSubscription :: "database \<Rightarrow> int \<Rightarrow> user_subscription option" where
  "getUserSubscription db i = first_row (select_where subscription_id i (userSubscriptions db))"

text \<open>
  The three status writes of \<^verbatim>\<open>storage.ts\<close>. None of them reads the current status:
  each is one \<^verbatim>\<open>update ... set ... where id = ?\<close>. \<^verbatim>\<open>cancelUserSubscription\<close> passes
  \<^verbatim>\<open>{ status: "cancelled", cancelDate: new Date() }\<close>; the table has no column
  \<^verbatim>\<open>cancelDate\<close>, so the status is all it writes.
\<close>

definition cancelUserSubscription ::
  "timestamp \<Rightarrow> database \<Rightarrow> int \<Rightarrow> user_subscription option \<times> database" where
  "cancelUserSubscription now db i =
     (let set_cols = (\<lambda>r. r\<lparr>subscription_status := ''cancelled''\<rparr>)
      in (first_row (returning subscription_id i set_cols (userSubscriptions db)),
          db\<lparr>userSubscriptions :=
               update_where subscription_id i set_cols (userSubscriptions db)\<rparr>))"

definition pauseUserSubscription ::
  "database \<Rightarrow> int \<Rightarrow> user_subscription option \<times> database" where
  "pauseUserSubscription db i =
     (let set_cols = (\<lambda>r. r\<lparr>subscription_status := ''paused''\<rparr>)
      in (first_row (returning subscription_id i set_cols (userSubscriptions db)),
          db\<lparr>userSubscriptions :=
               update_where subscription_id i set_cols (userSubscriptions db)\<rparr>))"

definition resumeUserSubscription ::
  "database \<Rightarrow> int \<Rightarrow> user_subscription option \<times> database" where
  "resumeUserSubscription db i =
     (let set_cols = (\<lambda>r. r\<lparr>subscription_status := ''active''\<rparr>)
      in (first_row (returning subscription_id i set_cols (userSubscriptions db)),
          db\<lparr>userSubscriptions :=
               update_where subscription_id i set_cols (userSubscriptions db)\<rparr>))"

text \<open>
  The handlers \<^verbatim>\<open>POST /api/user-subscriptions/:id/cancel\<close>, \<^verbatim>\<open>/pause\<close> and
  \<^verbatim>\<open>/resume\<close> have one shape: look the subscription up (404), check the owner (403),
  call the storage write, create a notification, send the updated row. They differ in the
  storage write and in the notification; \<open>subscription_route\<close> takes both.
\<close>

definition subscription_route ::
  "(database \<Rightarrow> int \<Rightarrow> user_subscription option \<times> database) \<Rightarrow> string \<Rightarrow> string \<Rightarrow>
     timestamp \<Rightarrow> database \<Rightarrow> session \<Rightarrow> int \<Rightarrow>
     user_subscription option response \<times> database" where
  "subscription_route write ty ttl now db sess sid =
     (case sess of
        None \<Rightarrow> (Failure 401 ''Unauthorized'', db)
      | Some uid \<Rightarrow>
          (case getUserSubscription db sid of
             None \<Rightarrow> (Failure 404 ''Subscription not found'', db)
           | Some subscription \<Rightarrow>
               if subscription_userId subscription \<noteq> uid
               then (Failure 403 ''Unauthorized access to this subscription'', db)
               else
                 (let (updatedSubscription, db1) = write db sid;
                      (created, db2) = createNotification now db1 uid ty ttl
                  in (Success 200 updatedSubscription, db2))))"

definition post_user_subscriptions_cancel ::
  "timestamp \<Rightarrow> database \<Rightarrow> session \<Rightarrow> int \<Rightarrow>
     user_subscription option response \<times> database" where
  "post_user_subscriptions_cancel now =
     subscription_route (cancelUserSubscription now) ''subscription_cancelled''
       ''Subscription Cancelled'' now"

definition post_user_subscriptions_pause ::
  "timestamp \<Rightarrow> database \<Rightarrow> session \<Rightarrow> int \<Rightarrow>
     user_subscription option response \<times> database" where
  "post_user_subscriptions_pause now =
     subscription_route pauseUserSubscription ''subscription_paused''
       ''Subscription Paused'' now"

definition post_user_subscriptions_resume ::
  "timestamp \<Rightarrow> database \<Rightarrow> session \<Rightarrow> int \<Rightarrow>
     user_subscription option response \<times> database" where
  "post_user_subscriptions_resume now =
     subscription_route resumeUserSubscription ''subscription_resumed''
       ''Subscription Resumed'' now"

section \<open>Catalog and inventory\<close>

text \<open>
  \<^verbatim>\<open>DatabaseStorage.getLowStockItems\<close>: four queries with
  \<^verbatim>\<open>where(lt(t.stock, t.threshold))\<close>, concatenated in the order bases, sauces, cheeses,
  toppings.
\<close>

definition getLowStockItems :: "database \<Rightarrow> catalog_item list" where
  "getLowStockItems db =
     filter (\<lambda>r. stock r < threshold r) (pizzaBases db) @
     filter (\<lambda>r. stock r < threshold r) (pizzaSauces db) @
     filter (\<lambda>r. stock r < threshold r) (pizzaCheeses db) @
     filter (\<lambda>r. stock r < threshold r) (pizzaToppings db)"

text \<open>
  \<^verbatim>\<open>MemStorage\<close>, the in-memory implementation of the same interface, keeps each table
  in a \<^verbatim>\<open>Map\<close>; its \<^verbatim>\<open>getLowStockItems\<close> loops over the values of the four maps (in
  insertion order) and pushes an item \<^verbatim>\<open>if (item.stock <= item.threshold)\<close>.
\<close>

record mem_storage =
  mem_pizzaBases :: "catalog_item list"
  mem_pizzaSauces :: "catalog_item list"
  mem_pizzaCheeses :: "catalog_item list"
  mem_pizzaToppings :: "catalog_item list"

definition MemStorage_getLowStockItems :: "mem_storage \<Rightarrow> catalog_item list" where
  "MemStorage_getLowStockItems m =
     filter (\<lambda>r. stock r \<le> threshold r) (mem_pizzaBases m) @
     filter (\<lambda>r. stock r \<le> threshold r) (mem_pizzaSauces m) @
     filter (\<lambda>r. stock r \<le> threshold r) (mem_pizzaCheeses m) @
     filter (\<lambda>r. stock r \<le> threshold r) (mem_pizzaToppings m)"

text \<open>The stock of the component with id \<open>i\<close> in a catalog table.\<close>

definition stock_of :: "catalog_item list \<Rightarrow> int \<Rightarrow> int option" where
  "stock_of tbl i = map_option stock (first_row (select_where item_id i tbl))"

section \<open>Route handlers: order creation\<close>

text \<open>
  The body of \<^verbatim>\<open>POST /api/orders\<close> as the client sends it
  (\<^verbatim>\<open>checkout-page.tsx\<close>): \<^verbatim>\<open>totalAmount\<close>, \<^verbatim>\<open>deliveryAddress\<close>, \<^verbatim>\<open>contactNumber\<close>
  and \<^verbatim>\<open>items\<close>, each item with \<^verbatim>\<open>pizzaDetails\<close>, \<^verbatim>\<open>price\<close> and \<^verbatim>\<open>quantity\<close>.
  \<open>body_items\<close> is \<open>None\<close> when \<^verbatim>\<open>items\<close> is absent or not an array. Bodies with further
  keys are outside the model.
\<close>

record cart_line =
  line_pizzaDetails :: pizza_config
  line_price :: jsval
  line_quantity :: jsval

record order_body =
  body_totalAmount :: jsval
  body_deliveryAddress :: jsval
  body_contactNumber :: jsval
  body_items :: "cart_line list option"

text \<open>
  \<^verbatim>\<open>insertOrderSchema\<close> is \<^verbatim>\<open>createInsertSchema(orders).pick({...})\<close>. The function
  \<^verbatim>\<open>createInsertSchema\<close> belongs to the library drizzle-zod, which derives the schema
  from the column declarations: a \<^verbatim>\<open>notNull()\<close> column without default is required; a
  \<^verbatim>\<open>text\<close> column is a string of any length; a \<^verbatim>\<open>doublePrecision\<close> column is a number
  within the range the library allows for it (48 bits, in its releases from 0.6 on); an
  \<^verbatim>\<open>integer\<close> column is an integer of 32 bits. The handler itself adds \<^verbatim>\<open>userId\<close>.
\<close>

definition double_precision_range :: "rat \<Rightarrow> bool" where
  "double_precision_range x \<longleftrightarrow> - 140737488355328 \<le> x \<and> x \<le> 140737488355327"

definition insertOrderSchema :: "order_body \<Rightarrow> (rat \<times> string \<times> string) option" where
  "insertOrderSchema b =
     (case (body_totalAmount b, body_deliveryAddress b, body_contactNumber b) of
        (JNumber amount, JString address, JString contact) \<Rightarrow>
          if double_precision_range amount then Some (amount, address, contact) else None
      | _ \<Rightarrow> None)"

record parsed_line =
  parsed_pizzaDetails :: pizza_config
  parsed_price :: rat
  parsed_quantity :: int

text \<open>
  \<^verbatim>\<open>insertOrderItemSchema\<close>, modelled from the column declarations in the same way:
  \<^verbatim>\<open>price\<close> is a required number; \<^verbatim>\<open>quantity\<close> is an \<^verbatim>\<open>integer\<close> column with default
  1, so it is optional and, when present, an integer of 32 bits.
\<close>

definition insertOrderItemSchema :: "cart_line \<Rightarrow> parsed_line option" where
  "insertOrderItemSchema l =
     (case line_price l of
        JNumber p \<Rightarrow>
          if double_precision_range p
          then
            (case line_quantity l of
               JUndefined \<Rightarrow>
                 Some \<lparr> parsed_pizzaDetails = line_pizzaDetails l, parsed_price = p,
                        parsed_quantity = 1 \<rparr>
             | JNumber q \<Rightarrow>
                 if rat_of_int \<lfloor>q\<rfloor> = q \<and> int32 \<lfloor>q\<rfloor>
                 then Some \<lparr> parsed_pizzaDetails = line_pizzaDetails l, parsed_price = p,
                             parsed_quantity = \<lfloor>q\<rfloor> \<rparr>
                 else None
             | _ \<Rightarrow> None)
          else None
      | _ \<Rightarrow> None)"

text \<open>
  \<^verbatim>\<open>createOrder\<close> inserts the row with \<^verbatim>\<open>status: "pending"\<close>, \<^verbatim>\<open>paymentId: null\<close>,
  \<^verbatim>\<open>paymentStatus: "pending"\<close> and both timestamps \<open>now\<close>; the other columns take
  their defaults.
\<close>

definition createOrder ::
  "timestamp \<Rightarrow> database \<Rightarrow> rat \<Rightarrow> string \<Rightarrow> string \<Rightarrow> int \<Rightarrow> order \<times> database" where
  "createOrder now db amount address contact uid =
     (let newOrder = \<lparr> order_id = orders_id_seq db, userId = uid, status = ''pending'',
                        totalAmount = amount, paymentId = None, paymentStatus = ''pending'',
                        deliveryAddress = address, contactNumber = contact,
                        discountAmount = Finite 0, loyaltyPointsRedeemed = 0,
                        createdAt = now, updatedAt = now \<rparr>
      in (newOrder, db\<lparr>orders := orders db @ [newOrder],
                        orders_id_seq := orders_id_seq db + 1\<rparr>))"

definition createOrderItem :: "database \<Rightarrow> int \<Rightarrow> parsed_line \<Rightarrow> order_item \<times> database" where
  "createOrderItem db oid l =
     (let orderItem = \<lparr> order_item_id = order_items_id_seq db, orderId = oid,
                         pizzaDetails = parsed_pizzaDetails l, price = parsed_price l,
                         quantity = parsed_quantity l \<rparr>
      in (orderItem, db\<lparr>orderItems := orderItems db @ [orderItem],
                         order_items_id_seq := order_items_id_seq db + 1\<rparr>))"

definition getOrderItems :: "database \<Rightarrow> int \<Rightarrow> order_item list" where
  "getOrderItems db oid = select_where orderId oid (orderItems db)"

text \<open>
  The loop of the handler over \<^verbatim>\<open>req.body.items\<close>: an item that passes
  \<^verbatim>\<open>insertOrderItemSchema\<close> is inserted, any other is skipped.
\<close>

fun create_valid_items :: "database \<Rightarrow> int \<Rightarrow> cart_line list \<Rightarrow> database" where
  "create_valid_items db oid [] = db"
| "create_valid_items db oid (l # ls) =
     create_valid_items
       (case insertOrderItemSchema l of
          None \<Rightarrow> db
        | Some item \<Rightarrow> snd (createOrderItem db oid item))
       oid ls"

text \<open>
  The two shapes of a 201 reply: \<^verbatim>\<open>{ ...newOrder, items }\<close> from the handler of
  \<^verbatim>\<open>registerOrderRoutes\<close>, and \<^verbatim>\<open>{ order, items, lowStockItems }\<close> from the handler of
  \<^verbatim>\<open>registerRoutes\<close>.
\<close>

datatype create_order_reply =
  OrderWithItems order "order_item list"
| OrderItemsLowStock order "order_item list" "catalog_item list option"

text \<open>
  \<^verbatim>\<open>app.post("/api/orders", ensureAuthenticated, ...)\<close> in \<^verbatim>\<open>registerOrderRoutes\<close>
  (\<^verbatim>\<open>routes/orders.ts\<close>): validate with \<^verbatim>\<open>insertOrderSchema\<close> (400), create the order,
  create the valid items, read the items back, create a notification, answer 201. It
  reads and writes no catalog table, and it answers on every path.
\<close>

definition registerOrderRoutes_post_orders ::
  "timestamp \<Rightarrow> database \<Rightarrow> session \<Rightarrow> order_body \<Rightarrow>
     create_order_reply response \<times> database" where
  "registerOrderRoutes_post_orders now db sess b =
     (case sess of
        None \<Rightarrow> (Failure 401 ''Unauthorized'', db)
      | Some uid \<Rightarrow>
          (case insertOrderSchema b of
             None \<Rightarrow> (Failure 400 ''Invalid order data'', db)
           | Some (amount, address, contact) \<Rightarrow>
               (let (newOrder, db1) = createOrder now db amount address contact uid;
                    db2 = (case body_items b of
                             None \<Rightarrow> db1
                           | Some ls \<Rightarrow> create_valid_items db1 (order_id newOrder) ls);
                    found = getOrderItems db2 (order_id newOrder);
                    (created, db3) =
                      createNotification now db2 uid ''order_created'' ''Order Created''
                in (Success 201 (OrderWithItems newOrder found), db3))))"

text \<open>
  Express tries the handlers of a method and path in the order of their registration;
  a handler either answers or calls \<^verbatim>\<open>next()\<close> (\<open>None\<close>), and only then is the following
  one tried. When none answers, Express answers 404.
\<close>

type_synonym order_handler =
  "database \<Rightarrow> session \<Rightarrow> order_body \<Rightarrow> (create_order_reply response \<times> database) option"

fun express_route ::
  "order_handler list \<Rightarrow> database \<Rightarrow> session \<Rightarrow> order_body \<Rightarrow>
     create_order_reply response \<times> database" where
  "express_route [] db sess b = (Failure 404 ''Cannot POST /api/orders'', db)"
| "express_route (h # hs) db sess b =
     (case h db sess b of
        None \<Rightarrow> express_route hs db sess b
      | Some answer \<Rightarrow> answer)"

text \<open>
  \<^verbatim>\<open>POST /api/orders\<close> in the application. \<^verbatim>\<open>registerRoutes\<close> first calls
  \<^verbatim>\<open>registerOrderRoutes(app, notificationService)\<close> and afterwards registers its own
  handler for the same method and path (the one with the \<^verbatim>\<open>orderSchema\<close> check and the
  inventory loop). That later handler is the parameter \<open>later\<close>.
\<close>

definition post_orders ::
  "timestamp \<Rightarrow> order_handler \<Rightarrow> database \<Rightarrow> session \<Rightarrow> order_body \<Rightarrow>
     create_order_reply response \<times> database" where
  "post_orders now later =
     express_route [\<lambda>db sess b. Some (registerOrderRoutes_post_orders now db sess b), later]"

section \<open>Example data\<close>

definition save10 :: promotion where
  "save10 = \<lparr> promotion_id = 1, code = ''SAVE10'', description = ''Ten percent off'',
      discountType = ''percentage'', discountValue = 10, minOrderAmount = 50,
      maxUses = Some 100, currentUses = 3, startDate = 1000, endDate = 2000,
      isActive = True \<rparr>"

definition flat500 :: promotion where
  "flat500 = \<lparr> promotion_id = 2, code = ''FLAT500'', description = ''Used up'',
      discountType = ''fixed'', discountValue = 500, minOrderAmount = 0,
      maxUses = Some 5, currentUses = 5, startDate = 1000, endDate = 2000,
      isActive = True \<rparr>"

definition pct20 :: promotion where
  "pct20 = \<lparr> promotion_id = 3, code = ''PCT20'', description = ''Twenty percent off'',
      discountType = ''percentage'', discountValue = 20, minOrderAmount = 0,
      maxUses = Some 10, currentUses = 0, startDate = 1000, endDate = 2000,
      isActive = True \<rparr>"

definition fixed500 :: promotion where
  "fixed500 = \<lparr> promotion_id = 4, code = ''FIXED500'', description = ''500 off'',
      discountType = ''fixed'', discountValue = 500, minOrderAmount = 0,
      maxUses = Some 10, currentUses = 0, startDate = 1000, endDate = 2000,
      isActive = True \<rparr>"

definition empty_db :: database where
  "empty_db = \<lparr> users = [], promotions = [], orders = [], orderItems = [],
      pizzaBases = [], pizzaSauces = [], pizzaCheeses = [], pizzaToppings = [],
      userSubscriptions = [], notifications = [],
      orders_id_seq = 1, order_items_id_seq = 1, notifications_id_seq = 1 \<rparr>"

definition promo_db :: database where
  "promo_db = empty_db\<lparr>promotions := [save10, flat500]\<rparr>"

definition discount_db :: database where
  "discount_db = empty_db\<lparr>promotions := [pct20, fixed500]\<rparr>"

definition sub1 :: user_subscription where
  "sub1 = \<lparr> subscription_id = 1, subscription_userId = 7, planId = 2,
      subscription_startDate = 1000, nextDeliveryDate = 5000,
      subscription_status = ''active'' \<rparr>"

definition sub_db :: database where
  "sub_db = empty_db\<lparr>userSubscriptions := [sub1]\<rparr>"

definition cancelled_db :: database where
  "cancelled_db = snd (cancelUserSubscription 1200 sub_db 1)"

definition alice :: user where
  "alice = \<lparr> user_id = 7, username = ''alice'', isAdmin = False, loyaltyPoints = 100,
      membershipTier = ''bronze'' \<rparr>"

definition order5 :: order where
  "order5 = \<lparr> order_id = 5, userId = 7, status = ''pending'', totalAmount = 97,
      paymentId = None, paymentStatus = ''pending'', deliveryAddress = ''12 Elm Street'',
      contactNumber = ''5550001111'', discountAmount = Finite 0,
      loyaltyPointsRedeemed = 0, createdAt = 1000, updatedAt = 1000 \<rparr>"

definition shop_db :: database where
  "shop_db = empty_db\<lparr>users := [alice], orders := [order5], promotions := [save10, flat500]\<rparr>"

definition pay :: "rat \<Rightarrow> payment_body" where
  "pay amount = \<lparr> body_orderId = JNumber 5, body_paymentMethodId = JUndefined,
      body_amount = JNumber amount, body_currency = JUndefined,
      body_cardDetails_ok = True \<rparr>"

text \<open>A user one step below the largest balance the column holds, with an order of 10.\<close>

definition bob :: user where
  "bob = \<lparr> user_id = 8, username = ''bob'', isAdmin = False, loyaltyPoints = 2147483647,
      membershipTier = ''gold'' \<rparr>"

definition order9 :: order where
  "order9 = order5\<lparr>order_id := 9, userId := 8, totalAmount := 10\<rparr>"

definition full_db :: database where
  "full_db = empty_db\<lparr>users := [bob], orders := [order9]\<rparr>"

definition pay9 :: payment_body where
  "pay9 = \<lparr> body_orderId = JNumber 9, body_paymentMethodId = JUndefined,
      body_amount = JNumber 10, body_currency = JUndefined, body_cardDetails_ok = True \<rparr>"

definition thin_crust :: catalog_item where
  "thin_crust = \<lparr> item_id = 1, name = ''Thin Crust'', item_price = 199, stock = 20,
      threshold = 20 \<rparr>"

definition at_threshold_db :: database where
  "at_threshold_db = empty_db\<lparr>pizzaBases := [thin_crust]\<rparr>"

definition at_threshold_mem :: mem_storage where
  "at_threshold_mem = \<lparr> mem_pizzaBases = [thin_crust], mem_pizzaSauces = [],
      mem_pizzaCheeses = [], mem_pizzaToppings = [] \<rparr>"

definition redeem20 :: "redeem_reply response \<times> database" where
  "redeem20 = post_loyalty_points_redeem 1500 shop_db (Some 7) (JNumber 20) (JNumber 5)"



definition traditional :: catalog_item where
  "traditional = \<lparr> item_id = 1, name = ''Traditional'', item_price = 199, stock = 10,
      threshold = 20 \<rparr>"

definition tomato :: catalog_item where
  "tomato = \<lparr> item_id = 1, name = ''Tomato'', item_price = 49, stock = 10, threshold = 20 \<rparr>"

definition mozzarella :: catalog_item where
  "mozzarella = \<lparr> item_id = 2, name = ''Mozzarella'', item_price = 99, stock = 10,
      threshold = 20 \<rparr>"

definition olives :: catalog_item where
  "olives = \<lparr> item_id = 3, name = ''Olives'', item_price = 39, stock = 2, threshold = 20 \<rparr>"

definition pantry_db :: database where
  "pantry_db = empty_db\<lparr>users := [alice], pizzaBases := [traditional],
      pizzaSauces := [tomato], pizzaCheeses := [mozzarella], pizzaToppings := [olives]\<rparr>"

definition cart_line_of :: "pizza_config \<Rightarrow> rat \<Rightarrow> cart_line" where
  "cart_line_of details q =
     \<lparr> line_pizzaDetails = details, line_price = JNumber 250, line_quantity = JNumber q \<rparr>"

definition order_body_of :: "string \<Rightarrow> cart_line list \<Rightarrow> order_body" where
  "order_body_of address ls =
     \<lparr> body_totalAmount = JNumber 500, body_deliveryAddress = JString address,
       body_contactNumber = JString ''5550001111'', body_items = Some ls \<rparr>"

definition plain :: pizza_config where
  "plain = \<lparr> base = Some 1, sauce = None, cheese = None, toppings = [] \<rparr>"

definition olive_pizza :: pizza_config where
  "olive_pizza = \<lparr> base = Some 1, sauce = Some 1, cheese = Some 2, toppings = [3] \<rparr>"

definition two_plain :: order_body where
  "two_plain = order_body_of ''12 Elm Street'' [cart_line_of plain 2]"

definition five_olive :: order_body where
  "five_olive = order_body_of ''12 Elm Street'' [cart_line_of olive_pizza 5]"

definition three_char_address :: order_body where
  "three_char_address = order_body_of ''Elm'' [cart_line_of plain 1]"

section \<open>Arithmetic on integral doubles\<close>

text \<open>
  An integer of magnitude below \<open>2\<^sup>5\<^sup>3\<close> is a double, so rounding leaves it alone, and
  sums and differences of such integers are exact when the result is in that range.
\<close>

lemma bit_length_nonneg: "0 \<le> bit_length n"
proof (induction n rule: bit_length.induct)
  case (1 n)
  then show ?case by (subst bit_length.simps) simp
qed

lemma bit_length_pos: "0 < n \<Longrightarrow> 0 < bit_length n"
  using bit_length_nonneg [of "n div 2"] by (subst bit_length.simps) simp

lemma bit_length_le: "n < 2 ^ k \<Longrightarrow> bit_length n \<le> int k"
proof (induction k arbitrary: n)
  case 0
  then show ?case by (subst bit_length.simps) simp
next
  case (Suc k)
  show ?case
  proof (cases "n \<le> 0")
    case True
    then show ?thesis by (subst bit_length.simps) simp
  next
    case False
    have "n div 2 < 2 ^ k" using Suc.prems by simp
    then have "bit_length (n div 2) \<le> int k" by (rule Suc.IH)
    then show ?thesis using False by (subst bit_length.simps) simp
  qed
qed

lemma pow2_nonneg_eq: "0 \<le> e \<Longrightarrow> pow2_nonneg e = 2 ^ nat e"
proof (induction e rule: pow2_nonneg.induct)
  case (1 e)
  show ?case
  proof (cases "e \<le> 0")
    case True
    then show ?thesis using 1 by (subst pow2_nonneg.simps) simp
  next
    case False
    have nn: "0 \<le> e div 2" using False by simp
    show ?thesis
    proof (cases "even e")
      case True
      have h: "pow2_nonneg (e div 2) = 2 ^ nat (e div 2)"
        by (rule "1.IH"(1) [OF False True nn])
      have "nat e = 2 * nat (e div 2)" using False True by (auto elim!: evenE)
      then have "(2::rat) ^ nat e = (2 ^ nat (e div 2))\<^sup>2"
        by (simp only: power_even_eq)
      then show ?thesis using False True h by (subst pow2_nonneg.simps) simp
    next
      case odd: False
      have h: "pow2_nonneg (e div 2) = 2 ^ nat (e div 2)"
        by (rule "1.IH"(2) [OF False odd nn])
      have "nat e = Suc (2 * nat (e div 2))" using False odd by (auto elim!: oddE)
      then have "(2::rat) ^ nat e = 2 * (2 ^ nat (e div 2))\<^sup>2"
        by (simp only: power_odd_eq)
      then show ?thesis using False odd h by (subst pow2_nonneg.simps) simp
    qed
  qed
qed

lemma round_half_even_int: "round_half_even (rat_of_int m) = m"
  by (simp add: round_half_even_def Let_def)

lemma floor_log2_int: "0 < n \<Longrightarrow> floor_log2 (rat_of_int n) = bit_length n - 1"
  by (simp add: floor_log2_def)

lemma round_magnitude_int:
  assumes "0 < n" and "n < 2 ^ 53"
  shows "round_magnitude (rat_of_int n) = rat_of_int n"
proof -
  let ?e = "bit_length n - 1"
  have le: "?e \<le> 52" using bit_length_le [OF assms(2)] by simp
  have ge: "0 \<le> ?e" using bit_length_pos [OF assms(1)] by simp
  define k where "k = nat (52 - ?e)"
  have q: "max (?e - 52) (- 1074) = - int k" using le ge by (simp add: k_def)
  have p: "pow2 (- int k) = 1 / 2 ^ k"
    by (cases "k = 0") (simp_all add: pow2_def pow2_nonneg_eq pow2_nonneg.simps [of 0])
  have "rat_of_int n / (1 / 2 ^ k) = rat_of_int (n * 2 ^ k)" by simp
  then have "round_half_even (rat_of_int n / pow2 (- int k)) = n * 2 ^ k"
    by (simp only: p round_half_even_int)
  then show ?thesis
    unfolding round_magnitude_def floor_log2_int [OF assms(1)] q Let_def by (simp add: p)
qed

lemma round_double_int:
  assumes "\<bar>n\<bar> < 2 ^ 53"
  shows "round_double (rat_of_int n) = Finite (rat_of_int n)"
proof (cases "n = 0")
  case True
  then show ?thesis by (simp add: round_double_def)
next
  case False
  define m where "m = \<bar>n\<bar>"
  have pos: "0 < m" and lt: "m < 2 ^ 53" using False assms by (simp_all add: m_def)
  have a: "\<bar>rat_of_int n\<bar> = rat_of_int m" by (simp add: m_def)
  have r: "round_magnitude \<bar>rat_of_int n\<bar> = rat_of_int m"
    unfolding a by (rule round_magnitude_int [OF pos lt])
  have "bit_length m \<le> 53" using bit_length_le [OF lt] by simp
  then have nf: "\<not> 1024 \<le> floor_log2 (rat_of_int m)"
    by (simp add: floor_log2_int [OF pos])
  have s: "(if 0 < rat_of_int n then rat_of_int m else - rat_of_int m) = rat_of_int n"
    by (simp add: m_def)
  show ?thesis
    using False nf unfolding round_double_def r Let_def s by simp
qed

lemma js_add_int:
  "\<bar>a + b\<bar> < 2 ^ 53 \<Longrightarrow>
   js_add (Finite (rat_of_int a)) (Finite (rat_of_int b)) = Finite (rat_of_int (a + b))"
  using round_double_int [of "a + b"] by simp

lemma js_sub_int:
  "\<bar>a - b\<bar> < 2 ^ 53 \<Longrightarrow>
   js_sub (Finite (rat_of_int a)) (Finite (rat_of_int b)) = Finite (rat_of_int (a - b))"
  using round_double_int [of "a - b"] by (simp add: js_sub_def)

section \<open>Reads after writes\<close>

text \<open>
  What a select by a column returns after an update by that column, when the update
  leaves the column alone: the facts every property of a handler below rests on.
\<close>

lemma first_row_map: "first_row (map f xs) = map_option f (first_row xs)"
  by (cases xs) simp_all

lemma first_row_returning:
  "first_row (returning col v f rows) = map_option f (first_row (select_where col v rows))"
  by (simp add: returning_def first_row_map)

lemma select_update_same:
  assumes "\<And>r. col (f r) = col r"
  shows "select_where col v (update_where col v f rows) = map f (select_where col v rows)"
  by (induction rows) (simp_all add: select_where_def update_where_def assms)

lemma select_update_other:
  assumes "\<And>r. col (f r) = col r" and "w \<noteq> v"
  shows "select_where col w (update_where col v f rows) = select_where col w rows"
  using assms(2) by (induction rows) (auto simp: select_where_def update_where_def assms(1))

lemma first_row_select_update:
  assumes "\<And>r. col (f r) = col r"
  shows "first_row (select_where col w (update_where col v f rows)) =
           (if w = v then map_option f (first_row (select_where col w rows))
            else first_row (select_where col w rows))"
  using assms by (simp add: select_update_same select_update_other first_row_map)

lemma first_row_select_col:
  assumes "first_row (select_where col v rows) = Some r"
  shows "col r = v"
proof -
  have "r \<in> set (select_where col v rows)"
    using assms by (cases "select_where col v rows") auto
  then show ?thesis by (simp add: select_where_def)
qed

lemma getUserSubscription_pause:
  "getUserSubscription (snd (pauseUserSubscription db i)) j =
     (if j = i then map_option (\<lambda>r. r\<lparr>subscription_status := ''paused''\<rparr>) (getUserSubscription db j)
      else getUserSubscription db j)"
  by (simp add: getUserSubscription_def pauseUserSubscription_def Let_def first_row_select_update)

lemma getUserSubscription_resume:
  "getUserSubscription (snd (resumeUserSubscription db i)) j =
     (if j = i then map_option (\<lambda>r. r\<lparr>subscription_status := ''active''\<rparr>) (getUserSubscription db j)
      else getUserSubscription db j)"
  by (simp add: getUserSubscription_def resumeUserSubscription_def Let_def first_row_select_update)

lemma getUserSubscription_cancel:
  "getUserSubscription (snd (cancelUserSubscription now db i)) j =
     (if j = i then map_option (\<lambda>r. r\<lparr>subscription_status := ''cancelled''\<rparr>)
                      (getUserSubscription db j)
      else getUserSubscription db j)"
  by (simp add: getUserSubscription_def cancelUserSubscription_def Let_def first_row_select_update)

text \<open>
  The keys the updates pass that are no columns: \<^verbatim>\<open>cancelDate\<close> of a subscription,
  \<^verbatim>\<open>promotionId\<close> and \<^verbatim>\<open>loyaltyDiscountAmount\<close> of an order, \<^verbatim>\<open>usageCount\<close> of a
  promotion. What remains is what the storage functions above write.
\<close>

lemma settable_cancelUserSubscription:
  "settable userSubscriptions_columns [''status'', ''cancelDate''] = [''status'']"
  by (simp add: settable_def userSubscriptions_columns_def)

lemma settable_updateOrderPromotion:
  "settable orders_columns [''promotionId'', ''discountAmount'', ''updatedAt''] =
     [''discountAmount'', ''updatedAt'']"
  by (simp add: settable_def orders_columns_def)

lemma settable_updateOrderLoyaltyDiscount:
  "settable orders_columns [''loyaltyDiscountAmount'', ''loyaltyPointsRedeemed'', ''updatedAt''] =
     [''loyaltyPointsRedeemed'', ''updatedAt'']"
  by (simp add: settable_def orders_columns_def)

lemma settable_incrementPromotionUse:
  "settable (map fst promotions_table) [''usageCount''] = []"
  by (simp add: settable_def promotions_table_def)

lemma getOrder_int:
  "int32 i \<Longrightarrow>
   getOrder db (Finite (rat_of_int i)) = Inr (first_row (select_where order_id i (orders db)))"
  by (simp add: getOrder_def)

lemma getOrder_found:
  assumes "getOrder db (Finite (rat_of_int i)) = Inr (Some r)"
  shows "int32 i" and "first_row (select_where order_id i (orders db)) = Some r"
    and "order_id r = i"
proof -
  show i: "int32 i"
    using assms by (simp add: getOrder_def split: if_splits)
  show f: "first_row (select_where order_id i (orders db)) = Some r"
    using assms i by (simp add: getOrder_int)
  show "order_id r = i"
    by (rule first_row_select_col [OF f])
qed

lemma getUser_cong_users: "users db' = users db \<Longrightarrow> getUser db' i = getUser db i"
  by (simp add: getUser_def)

lemma createNotification_frame [simp]:
  "users (snd (createNotification now db uid ty ttl)) = users db"
  "orders (snd (createNotification now db uid ty ttl)) = orders db"
  "orderItems (snd (createNotification now db uid ty ttl)) = orderItems db"
  "promotions (snd (createNotification now db uid ty ttl)) = promotions db"
  "pizzaBases (snd (createNotification now db uid ty ttl)) = pizzaBases db"
  "pizzaSauces (snd (createNotification now db uid ty ttl)) = pizzaSauces db"
  "pizzaCheeses (snd (createNotification now db uid ty ttl)) = pizzaCheeses db"
  "pizzaToppings (snd (createNotification now db uid ty ttl)) = pizzaToppings db"
  "userSubscriptions (snd (createNotification now db uid ty ttl)) = userSubscriptions db"
  by (simp_all add: createNotification_def Let_def)

section \<open>Properties of the subscription lifecycle\<close>

text \<open>
  Claim C9. For every existing user subscription, \<open>pauseUserSubscription\<close> followed by
  \<open>resumeUserSubscription\<close> leaves the row with status \<open>active\<close> and every other column,
  \<open>planId\<close> and \<open>userId\<close> among them, as it was; both calls return the row they wrote.
\<close>

theorem pause_resume_roundtrip:
  assumes "getUserSubscription db i = Some s"
  shows "getUserSubscription (snd (resumeUserSubscription (snd (pauseUserSubscription db i)) i)) i =
           Some (s\<lparr>subscription_status := ''active''\<rparr>) \<and>
         fst (pauseUserSubscription db i) = Some (s\<lparr>subscription_status := ''paused''\<rparr>) \<and>
         fst (resumeUserSubscription (snd (pauseUserSubscription db i)) i) =
           Some (s\<lparr>subscription_status := ''active''\<rparr>) \<and>
         planId (s\<lparr>subscription_status := ''active''\<rparr>) = planId s \<and>
         subscription_userId (s\<lparr>subscription_status := ''active''\<rparr>) = subscription_userId s"
proof -
  have p: "getUserSubscription (snd (pauseUserSubscription db i)) i =
             Some (s\<lparr>subscription_status := ''paused''\<rparr>)"
    using assms by (simp add: getUserSubscription_pause)
  have "fst (pauseUserSubscription db i) = Some (s\<lparr>subscription_status := ''paused''\<rparr>)"
    using assms
    by (simp add: pauseUserSubscription_def Let_def first_row_returning getUserSubscription_def)
  moreover have "fst (resumeUserSubscription (snd (pauseUserSubscription db i)) i) =
      Some (s\<lparr>subscription_status := ''active''\<rparr>)"
    using p
    by (simp add: resumeUserSubscription_def [of "snd (pauseUserSubscription db i)"] Let_def
        first_row_returning getUserSubscription_def)
  moreover have "getUserSubscription
      (snd (resumeUserSubscription (snd (pauseUserSubscription db i)) i)) i =
      Some (s\<lparr>subscription_status := ''active''\<rparr>)"
    using p by (simp add: getUserSubscription_resume)
  ultimately show ?thesis by simp
qed

theorem pause_resume_roundtrip_witness:
  "getUserSubscription (snd (resumeUserSubscription (snd (pauseUserSubscription sub_db 1)) 1)) 1 =
     Some sub1"
proof -
  have g: "getUserSubscription sub_db 1 = Some sub1"
    by (simp add: getUserSubscription_def sub_db_def empty_db_def select_where_def sub1_def)
  show ?thesis using pause_resume_roundtrip [OF g] by (simp add: sub1_def)
qed

section \<open>Cancelled subscriptions\<close>

text \<open>
  Claim C8 as stated, that no pause, resume or cancel changes a cancelled status, fails:
  the owner's resume request on a cancelled subscription is answered 200 and the stored
  status is \<open>active\<close>.
\<close>

theorem cancelled_is_not_terminal:
  "map_option subscription_status (getUserSubscription cancelled_db 1) = Some ''cancelled'' \<and>
   status_code (fst (post_user_subscriptions_resume 1300 cancelled_db (Some 7) 1)) = 200 \<and>
   map_option subscription_status
     (getUserSubscription (snd (post_user_subscriptions_resume 1300 cancelled_db (Some 7) 1)) 1) =
     Some ''active''"
  by (simp add: cancelled_db_def sub_db_def empty_db_def sub1_def
      post_user_subscriptions_resume_def subscription_route_def
      getUserSubscription_def cancelUserSubscription_def resumeUserSubscription_def
      createNotification_def select_where_def update_where_def returning_def Let_def)

text \<open>
  Claim C8, amended. For a subscription whose status is \<open>cancelled\<close>, a further cancel
  leaves the status \<open>cancelled\<close>, a pause sets it to \<open>paused\<close> and a resume sets it to
  \<open>active\<close>: each operation writes the status without reading it.
\<close>

theorem cancelled_status_after_writes:
  assumes "getUserSubscription db i = Some s" and "subscription_status s = ''cancelled''"
  shows "map_option subscription_status
           (getUserSubscription (snd (cancelUserSubscription now db i)) i) = Some ''cancelled'' \<and>
         map_option subscription_status
           (getUserSubscription (snd (pauseUserSubscription db i)) i) = Some ''paused'' \<and>
         map_option subscription_status
           (getUserSubscription (snd (resumeUserSubscription db i)) i) = Some ''active''"
  using assms
  by (simp add: getUserSubscription_cancel getUserSubscription_pause getUserSubscription_resume)

theorem cancelled_status_after_writes_witness:
  "map_option subscription_status
     (getUserSubscription (snd (cancelUserSubscription 1300 cancelled_db 1)) 1) = Some ''cancelled'' \<and>
   map_option subscription_status
     (getUserSubscription (snd (pauseUserSubscription cancelled_db 1)) 1) = Some ''paused'' \<and>
   map_option subscription_status
     (getUserSubscription (snd (resumeUserSubscription cancelled_db 1)) 1) = Some ''active''"
proof -
  have g: "getUserSubscription cancelled_db 1 =
      Some (sub1\<lparr>subscription_status := ''cancelled''\<rparr>)"
    by (simp add: cancelled_db_def sub_db_def empty_db_def sub1_def getUserSubscription_def
        cancelUserSubscription_def select_where_def update_where_def Let_def)
  have c: "subscription_status (sub1\<lparr>subscription_status := ''cancelled''\<rparr>) = ''cancelled''"
    by simp
  show ?thesis by (rule cancelled_status_after_writes [OF g c])
qed

section \<open>Properties of the low-stock list\<close>

lemma getLowStockItems_iff:
  "r \<in> set (getLowStockItems db) \<longleftrightarrow>
     r \<in> set (pizzaBases db) \<union> set (pizzaSauces db) \<union> set (pizzaCheeses db) \<union>
         set (pizzaToppings db) \<and> stock r < threshold r"
  by (auto simp: getLowStockItems_def)

lemma MemStorage_getLowStockItems_iff:
  "r \<in> set (MemStorage_getLowStockItems m) \<longleftrightarrow>
     r \<in> set (mem_pizzaBases m) \<union> set (mem_pizzaSauces m) \<union> set (mem_pizzaCheeses m) \<union>
         set (mem_pizzaToppings m) \<and> stock r \<le> threshold r"
  by (auto simp: MemStorage_getLowStockItems_def)

text \<open>
  Claim C7. \<open>MemStorage.getLowStockItems\<close> lists an item exactly when its stock is at or
  below its threshold, and \<open>DatabaseStorage.getLowStockItems\<close>, the implementation the
  server uses, exactly when its stock is strictly below it (the two lemmas above). A base
  with stock 20 and threshold 20 is in the first list and not in the second, where the
  claim says it is in the list.
\<close>

theorem getLowStockItems_excludes_stock_at_threshold:
  "stock thin_crust = threshold thin_crust \<and>
   thin_crust \<in> set (pizzaBases at_threshold_db) \<and>
   getLowStockItems at_threshold_db = [] \<and>
   MemStorage_getLowStockItems at_threshold_mem = [thin_crust]"
  by (simp add: thin_crust_def at_threshold_db_def at_threshold_mem_def empty_db_def
      getLowStockItems_def MemStorage_getLowStockItems_def)

section \<open>Properties of promotion validation\<close>

text \<open>
  The table object \<^verbatim>\<open>promotions\<close> has no property \<^verbatim>\<open>usageCount\<close> and no property
  \<^verbatim>\<open>maxUsage\<close>, so the fifth comparison of the query has two \<^verbatim>\<open>undefined\<close> operands:
  the statement is rejected whatever the code, the amount and the rows are.
\<close>

lemma promotions_usageCount_undefined:
  "property promotions_table ''usageCount'' = Undefined \<and>
   property promotions_table ''maxUsage'' = Undefined"
  by (simp add: property_def promotions_table_def)

lemma validatePromotion_raises:
  "validatePromotion now db c orderAmount = Inl MalformedStatement"
  by (simp add: validatePromotion_def select_and_def promotions_usageCount_undefined)

text \<open>
  Claim C1. \<open>validatePromotion\<close> does not return the stored promotion when the four
  conditions hold: it returns nothing at all. The promotion \<open>SAVE10\<close> is active, within
  its dates at 1500, used 3 times of 100 and asks for an order of 50; for an order of 80
  the call raises.
\<close>

theorem validatePromotion_raises_for_valid_promotion:
  "save10 \<in> set (promotions promo_db) \<and> code save10 = ''SAVE10'' \<and>
   promotion_valid 1500 80 save10 \<and>
   validatePromotion 1500 promo_db ''SAVE10'' 80 = Inl MalformedStatement"
  by (simp add: validatePromotion_raises promo_db_def empty_db_def save10_def
      promotion_valid_def)

section \<open>Properties of the discount computation\<close>

text \<open>
  The validate endpoint calls \<open>validatePromotion\<close> on every request that passes its
  guard, so it never reaches the discount computation.
\<close>

lemma validate_route_guarded:
  "c \<noteq> [] \<Longrightarrow> orderAmount \<noteq> 0 \<Longrightarrow>
   post_promotions_validate now db (Some uid) (JString c) (JNumber orderAmount) =
     Failure 500 ''Error validating promotion''"
  by (simp add: post_promotions_validate_def validatePromotion_raises)

lemma validate_route_never_succeeds:
  "status_code (post_promotions_validate now db sess code_field orderAmount_field) \<in>
     {400, 401, 500}"
  by (simp add: post_promotions_validate_def validatePromotion_raises
      split: option.splits jsval.splits)

text \<open>
  The lines that compute the discount, had they been reached: the two examples of the
  specification, and an amount of 1 at 33 percent, where the final amount is the double
  \<^verbatim>\<open>0.6699999999999999\<close> and not the double nearest to 0.67.
\<close>

lemma promotion_discount_examples:
  "promotion_discount pct20 100 = Finite 20"
  "js_sub (Finite 100) (promotion_discount pct20 100) = Finite 80"
  "promotion_discount fixed500 100 = Finite 100"
  "js_sub (Finite 100) (promotion_discount fixed500 100) = Finite 0"
  by code_simp+

lemma promotion_discount_rounds:
  "js_sub (Finite 1) (promotion_discount (pct20\<lparr>discountValue := 33\<rparr>) 1) =
     Finite (377176468792279 / 562949953421312)"
  "round_double (67 / 100) = Finite (6034823500676465 / 9007199254740992)"
  by code_simp+

text \<open>
  Claim C4. The validate endpoint does not report a discount of 20 and a final amount of
  80 for 20 percent on 100, nor 100 and 0 for a fixed 500 on 100: both promotions are
  valid at 1500, and both requests are answered 500.
\<close>

theorem validate_route_answers_500:
  "pct20 \<in> set (promotions discount_db) \<and> promotion_valid 1500 100 pct20 \<and>
   fixed500 \<in> set (promotions discount_db) \<and> promotion_valid 1500 100 fixed500 \<and>
   post_promotions_validate 1500 discount_db (Some 7) (JString ''PCT20'') (JNumber 100) =
     Failure 500 ''Error validating promotion'' \<and>
   post_promotions_validate 1500 discount_db (Some 7) (JString ''FIXED500'') (JNumber 100) =
     Failure 500 ''Error validating promotion''"
  by (simp add: post_promotions_validate_def validatePromotion_raises discount_db_def
      empty_db_def pct20_def fixed500_def promotion_valid_def)

section \<open>Properties of promotion application\<close>

text \<open>
  The apply endpoint calls \<open>validatePromotion\<close> before its first write: no request is
  answered 200 and none changes the store.
\<close>

lemma apply_promotion_never_succeeds:
  "status_code (fst (post_orders_apply_promotion now db sess oid code_field)) \<noteq> 200 \<and>
   snd (post_orders_apply_promotion now db sess oid code_field) = db"
  by (simp add: post_orders_apply_promotion_def validatePromotion_raises
      split: option.splits jsval.splits sum.splits)

text \<open>
  The two writes, had they been reached. \<open>updateOrderPromotion\<close> stores the discount
  amount and no promotion id. \<open>incrementPromotionUse\<close> never changes a counter: it looks
  for a promotion whose code is the decimal string of the id, and when it finds one its
  update has no column to set.
\<close>

lemma incrementPromotionUse_writes_nothing:
  "incrementPromotionUse db i = Inr (None, db) \<or>
   incrementPromotionUse db i = Inl MalformedStatement"
  by (simp add: incrementPromotionUse_def settable_incrementPromotionUse
      split: option.splits)



section \<open>Properties of order creation\<close>

text \<open>
  The handler of \<^verbatim>\<open>registerOrderRoutes\<close> answers every request, so the handler
  \<^verbatim>\<open>registerRoutes\<close> registers afterwards for the same method and path is never run,
  whatever it does.
\<close>

lemma post_orders_first:
  "post_orders now later db sess b = registerOrderRoutes_post_orders now db sess b"
  by (simp add: post_orders_def)

lemma create_valid_items_frame [simp]:
  "pizzaBases (create_valid_items db oid ls) = pizzaBases db"
  "pizzaSauces (create_valid_items db oid ls) = pizzaSauces db"
  "pizzaCheeses (create_valid_items db oid ls) = pizzaCheeses db"
  "pizzaToppings (create_valid_items db oid ls) = pizzaToppings db"
  "orders (create_valid_items db oid ls) = orders db"
  "notifications_id_seq (create_valid_items db oid ls) = notifications_id_seq db"
  by (induction ls arbitrary: db;
      simp add: createOrderItem_def Let_def split: option.splits)+

lemma createOrder_frame [simp]:
  "pizzaBases (snd (createOrder now db amount address contact uid)) = pizzaBases db"
  "pizzaSauces (snd (createOrder now db amount address contact uid)) = pizzaSauces db"
  "pizzaCheeses (snd (createOrder now db amount address contact uid)) = pizzaCheeses db"
  "pizzaToppings (snd (createOrder now db amount address contact uid)) = pizzaToppings db"
  by (simp_all add: createOrder_def Let_def)

text \<open>No request to \<^verbatim>\<open>POST /api/orders\<close> changes a catalog table.\<close>

lemma post_orders_leaves_catalog:
  "pizzaBases (snd (post_orders now later db sess b)) = pizzaBases db \<and>
   pizzaSauces (snd (post_orders now later db sess b)) = pizzaSauces db \<and>
   pizzaCheeses (snd (post_orders now later db sess b)) = pizzaCheeses db \<and>
   pizzaToppings (snd (post_orders now later db sess b)) = pizzaToppings db"
  by (simp add: post_orders_first registerOrderRoutes_post_orders_def Let_def split_beta
      split: option.splits)

text \<open>
  An authenticated request with a numeric total in range and two strings is answered 201,
  and its order row carries the address as sent, whatever its length.
\<close>

lemma post_orders_accepts_address:
  assumes "body_totalAmount b = JNumber amount" and "double_precision_range amount"
    and "body_deliveryAddress b = JString address"
    and "body_contactNumber b = JString contact"
  shows "status_code (fst (post_orders now later db (Some uid) b)) = 201"
    and "map deliveryAddress (orders (snd (post_orders now later db (Some uid) b))) =
           map deliveryAddress (orders db) @ [address]"
  using assms
  by (simp_all add: post_orders_first registerOrderRoutes_post_orders_def insertOrderSchema_def
      Let_def split_beta createOrder_def split: option.splits)

text \<open>
  Claim C5. An accepted order does not reduce the stock of the components its lines
  reference. With the base, the sauce and the cheese at stock 10 and the topping at stock
  2: the order of the specification's example, one line of quantity 2 on base 1, is
  answered 201 and leaves the base at 10; an order of quantity 5 on all four components
  is answered 201, its item row is stored, and the four stocks are 10, 10, 10 and 2.
\<close>

theorem order_leaves_stock_unchanged:
  "\<forall>later.
     stock_of (pizzaBases pantry_db) 1 = Some 10 \<and>
     status_code (fst (post_orders 1500 later pantry_db (Some 7) two_plain)) = 201 \<and>
     map (\<lambda>i. (pizzaDetails i, quantity i))
       (orderItems (snd (post_orders 1500 later pantry_db (Some 7) two_plain))) =
       [(plain, 2)] \<and>
     stock_of (pizzaBases (snd (post_orders 1500 later pantry_db (Some 7) two_plain))) 1 =
       Some 10 \<and>
     status_code (fst (post_orders 1500 later pantry_db (Some 7) five_olive)) = 201 \<and>
     map (\<lambda>i. (pizzaDetails i, quantity i))
       (orderItems (snd (post_orders 1500 later pantry_db (Some 7) five_olive))) =
       [(olive_pizza, 5)] \<and>
     stock_of (pizzaBases (snd (post_orders 1500 later pantry_db (Some 7) five_olive))) 1 =
       Some 10 \<and>
     stock_of (pizzaSauces (snd (post_orders 1500 later pantry_db (Some 7) five_olive))) 1 =
       Some 10 \<and>
     stock_of (pizzaCheeses (snd (post_orders 1500 later pantry_db (Some 7) five_olive))) 2 =
       Some 10 \<and>
     stock_of (pizzaToppings (snd (post_orders 1500 later pantry_db (Some 7) five_olive))) 3 =
       Some 2"
  apply (intro allI)
  unfolding post_orders_first
  by code_simp

text \<open>
  Claim C6. A request whose delivery address has 3 characters is not rejected: it is
  answered 201, and its order row and its item row are created.
\<close>

theorem short_address_accepted:
  "\<forall>later.
     body_deliveryAddress three_char_address = JString ''Elm'' \<and> length ''Elm'' < 10 \<and>
     orders pantry_db = [] \<and> orderItems pantry_db = [] \<and>
     status_code (fst (post_orders 1500 later pantry_db (Some 7) three_char_address)) = 201 \<and>
     map deliveryAddress
       (orders (snd (post_orders 1500 later pantry_db (Some 7) three_char_address))) =
       [''Elm''] \<and>
     map orderId
       (orderItems (snd (post_orders 1500 later pantry_db (Some 7) three_char_address))) =
       [1]"
  apply (intro allI)
  unfolding post_orders_first
  by code_simp

section \<open>Properties of the loyalty balance\<close>

lemma integer_of_number_int:
  "int32 n \<Longrightarrow> integer_of_number (Finite (rat_of_int n)) = Inr n"
  by simp

text \<open>
  \<open>updateUserLoyaltyPoints\<close> with an integral argument \<open>k\<close>: the balance becomes
  \<open>balance + k\<close> when that is between 0 and 2147483647, and the update raises when it is
  above.
\<close>

lemma updateUserLoyaltyPoints_stored:
  assumes "getUser db uid = Some u" and "0 \<le> loyaltyPoints u + k"
    and "loyaltyPoints u + k \<le> 2147483647"
  shows "updateUserLoyaltyPoints db uid (Finite (rat_of_int k)) =
           Inr (Some (u\<lparr>loyaltyPoints := loyaltyPoints u + k\<rparr>),
                db\<lparr>users := update_where user_id uid
                                (\<lambda>r. r\<lparr>loyaltyPoints := loyaltyPoints u + k\<rparr>) (users db)\<rparr>)"
proof -
  have small: "\<bar>loyaltyPoints u + k\<bar> < 2 ^ 53" using assms(2,3) by simp
  have sum: "js_add (Finite (rat_of_int (loyaltyPoints u))) (Finite (rat_of_int k)) =
      Finite (rat_of_int (loyaltyPoints u + k))"
    by (rule js_add_int [OF small])
  have nn: "js_nonnegative (Finite (rat_of_int (loyaltyPoints u + k)))"
    using assms(2) by simp
  have i: "integer_of_number (Finite (rat_of_int (loyaltyPoints u + k))) =
      Inr (loyaltyPoints u + k)"
    using assms(2,3) by (intro integer_of_number_int) (simp add: int32_def)
  have f: "first_row (select_where user_id uid (users db)) = Some u"
    using assms(1) by (simp add: getUser_def)
  show ?thesis
    unfolding updateUserLoyaltyPoints_def assms(1) option.case Let_def sum
    using nn i f by (simp add: first_row_returning)
qed

lemma updateUserLoyaltyPoints_overflow:
  assumes "getUser db uid = Some u" and "2147483647 < loyaltyPoints u + k"
    and "loyaltyPoints u + k < 2 ^ 53"
  shows "updateUserLoyaltyPoints db uid (Finite (rat_of_int k)) = Inl IntegerOutOfRange"
proof -
  have small: "\<bar>loyaltyPoints u + k\<bar> < 2 ^ 53" using assms(2,3) by simp
  have sum: "js_add (Finite (rat_of_int (loyaltyPoints u))) (Finite (rat_of_int k)) =
      Finite (rat_of_int (loyaltyPoints u + k))"
    by (rule js_add_int [OF small])
  have nn: "js_nonnegative (Finite (rat_of_int (loyaltyPoints u + k)))"
    using assms(2) by simp
  have i: "integer_of_number (Finite (rat_of_int (loyaltyPoints u + k))) =
      Inl IntegerOutOfRange"
    using assms(2) by (simp add: int32_def)
  show ?thesis
    unfolding updateUserLoyaltyPoints_def assms(1) option.case Let_def sum
    using nn i by simp
qed

lemma updateUserLoyaltyPoints_orders:
  "updateUserLoyaltyPoints db uid points = Inr (r, db') \<Longrightarrow> orders db' = orders db"
  by (auto simp: updateUserLoyaltyPoints_def Let_def split: option.splits sum.splits)

section \<open>Properties of loyalty-point redemption\<close>

text \<open>
  A redemption of more points than the balance is rejected with 400 and writes nothing.
\<close>

lemma redeem_rejected:
  assumes "getUser db uid = Some u" and "0 < p" and "loyaltyPoints u < p" and "0 < oid"
  shows "post_loyalty_points_redeem now db (Some uid)
           (JNumber (rat_of_int p)) (JNumber (rat_of_int oid)) =
         (Failure 400 ''Insufficient loyalty points'', db)"
  using assms by (simp add: post_loyalty_points_redeem_def)

text \<open>
  Every accepted redemption whose resulting balance the column can hold: the order
  records the redeemed points, and the stored balance becomes \<open>2 * balance - points\<close>,
  because the handler passes the intended new balance to a function that adds its
  argument to the stored balance.
\<close>

lemma redeem_accepted:
  assumes u: "getUser db uid = Some u" and p: "0 < p" "p \<le> loyaltyPoints u"
    and fits: "2 * loyaltyPoints u - p \<le> 2147483647"
    and oid: "0 < oid" and order: "getOrder db (Finite (rat_of_int oid)) = Inr (Some order)"
    and owner: "userId order = uid"
  shows "status_code (fst (post_loyalty_points_redeem now db (Some uid)
           (JNumber (rat_of_int p)) (JNumber (rat_of_int oid)))) = 200"
    and "getOrder (snd (post_loyalty_points_redeem now db (Some uid)
           (JNumber (rat_of_int p)) (JNumber (rat_of_int oid)))) (Finite (rat_of_int oid)) =
         Inr (Some (order\<lparr>loyaltyPointsRedeemed := p, updatedAt := now\<rparr>))"
    and "getUser (snd (post_loyalty_points_redeem now db (Some uid)
           (JNumber (rat_of_int p)) (JNumber (rat_of_int oid)))) uid =
         Some (u\<lparr>loyaltyPoints := 2 * loyaltyPoints u - p\<rparr>)"
proof -
  let ?set = "\<lambda>r. r\<lparr>loyaltyPointsRedeemed := p, updatedAt := now\<rparr>"
  let ?d = "js_min (js_mul (Finite (rat_of_int p)) (round_double (1 / 10)))
              (Finite (totalAmount order))"
  let ?db1 = "db\<lparr>orders := update_where order_id oid ?set (orders db)\<rparr>"
  let ?bal = "\<lambda>r. r\<lparr>loyaltyPoints := loyaltyPoints u + (loyaltyPoints u - p)\<rparr>"
  let ?db2 = "?db1\<lparr>users := update_where user_id uid ?bal (users ?db1)\<rparr>"
  let ?db3 = "snd (createNotification now ?db2 uid ''points_redeemed''
                     ''Loyalty Points Redeemed'')"
  note found = getOrder_found [OF order]
  have p32: "int32 p" using p fits by (simp add: int32_def)
  have w1: "updateOrderLoyaltyDiscount now db oid ?d p = Inr (Some (?set order), ?db1)"
    using p32 found(2) by (simp add: updateOrderLoyaltyDiscount_def first_row_returning)
  have sub: "js_sub (Finite (rat_of_int (loyaltyPoints u))) (Finite (rat_of_int p)) =
      Finite (rat_of_int (loyaltyPoints u - p))"
    using p fits by (intro js_sub_int) simp
  have u1: "getUser ?db1 uid = Some u"
    using u by (simp add: getUser_def)
  have w2: "updateUserLoyaltyPoints ?db1 uid (Finite (rat_of_int (loyaltyPoints u - p))) =
      Inr (Some (?bal u), ?db2)"
    using p fits by (intro updateUserLoyaltyPoints_stored [OF u1]) simp_all
  have w2': "updateUserLoyaltyPoints ?db1 uid
        (Finite (rat_of_int (loyaltyPoints u) - rat_of_int p)) = Inr (Some (?bal u), ?db2)"
    using w2 by simp
  have res: "post_loyalty_points_redeem now db (Some uid)
        (JNumber (rat_of_int p)) (JNumber (rat_of_int oid)) =
      (Success 200
         \<lparr> redeem_order = ?set order, redeem_discountAmount = ?d,
           redeem_finalAmount = js_sub (Finite (totalAmount order)) ?d,
           remainingPoints = loyaltyPoints u + (loyaltyPoints u - p) \<rparr>,
       ?db3)"
    unfolding post_loyalty_points_redeem_def
    using u p oid order owner
    by (simp add: Let_def split_beta w1 sub w2')
  show "status_code (fst (post_loyalty_points_redeem now db (Some uid)
           (JNumber (rat_of_int p)) (JNumber (rat_of_int oid)))) = 200"
    by (simp add: res)
  have "first_row (select_where order_id oid (orders ?db3)) = Some (?set order)"
    using found(2) by (simp add: first_row_select_update)
  then show "getOrder (snd (post_loyalty_points_redeem now db (Some uid)
           (JNumber (rat_of_int p)) (JNumber (rat_of_int oid)))) (Finite (rat_of_int oid)) =
         Inr (Some (order\<lparr>loyaltyPointsRedeemed := p, updatedAt := now\<rparr>))"
    unfolding res snd_conv getOrder_int [OF found(1)] by simp
  have "getUser ?db3 uid = getUser ?db2 uid"
    by (rule getUser_cong_users) simp
  also have "\<dots> = Some (?bal u)"
    using u by (simp add: getUser_def first_row_select_update)
  finally show "getUser (snd (post_loyalty_points_redeem now db (Some uid)
           (JNumber (rat_of_int p)) (JNumber (rat_of_int oid)))) uid =
         Some (u\<lparr>loyaltyPoints := 2 * loyaltyPoints u - p\<rparr>)"
    by (simp add: res)
qed

text \<open>
  Claim C2. A redemption is rejected with 400 and without any write when the balance is
  below the requested points (\<open>redeem_rejected\<close>), and an accepted one records the
  redeemed points on the order and reports the discount \<open>min (points * 0.1) totalAmount\<close>
  (\<open>redeem_accepted\<close>). The balance afterwards is not the balance before minus the
  points: the handler calls \<open>updateUserLoyaltyPoints\<close> with \<open>user.loyaltyPoints - points\<close>,
  and that function adds its argument to the stored balance. A user with 100 points who
  redeems 20 on their own order ends with 180 points, where the claim says 80.
\<close>

theorem redeem_adds_remaining_balance:
  "map_option loyaltyPoints (getUser shop_db 7) = Some 100 \<and>
   getOrder shop_db (Finite 5) = Inr (Some order5) \<and> userId order5 = 7 \<and>
   status_code (fst redeem20) = 200 \<and>
   (case fst redeem20 of Success c r \<Rightarrow> redeem_discountAmount r = Finite 2 \<and> remainingPoints r = 180
    | Failure c m \<Rightarrow> False) \<and>
   getOrder (snd redeem20) (Finite 5) =
     Inr (Some (order5\<lparr>loyaltyPointsRedeemed := 20, updatedAt := 1500\<rparr>)) \<and>
   map_option loyaltyPoints (getUser (snd redeem20) 7) = Some 180"
  by code_simp

section \<open>Properties of payment processing\<close>

lemma paymentSchema_Some:
  "paymentSchema b = Some (n, amount) \<Longrightarrow>
   body_orderId b = JNumber n \<and> body_amount b = JNumber amount \<and> 0 < amount"
  by (auto simp: paymentSchema_def split: jsval.splits if_splits)

lemma process_payment_invalid_body:
  "paymentSchema b = None \<Longrightarrow>
   post_process_payment now pid db (Some uid) b = (Failure 400 ''Invalid payment data'', db)"
  by (simp add: post_process_payment_def)

text \<open>
  A request for an existing order of the user with another amount, or with a body the
  schema rejects, is answered 400 and writes nothing.
\<close>

lemma process_payment_mismatch:
  assumes order: "getOrder db (Finite (rat_of_int oid)) = Inr (Some order)"
    and owner: "userId order = uid"
    and body: "body_orderId b = JNumber (rat_of_int oid)"
    and differs: "body_amount b \<noteq> JNumber (totalAmount order)"
  shows "status_code (fst (post_process_payment now pid db (Some uid) b)) = 400 \<and>
         snd (post_process_payment now pid db (Some uid) b) = db"
proof (cases "paymentSchema b")
  case None
  then show ?thesis by (simp add: process_payment_invalid_body)
next
  case (Some parsed)
  obtain n amount where parsed: "parsed = (n, amount)" by (cases parsed)
  have "n = rat_of_int oid" and "amount \<noteq> totalAmount order"
    using paymentSchema_Some [of b n amount] Some parsed body differs by auto
  then show ?thesis
    using Some parsed order owner by (simp add: post_process_payment_def)
qed

text \<open>
  A request with the amount of the order marks the order, whether or not the credit of
  the points succeeds afterwards.
\<close>

lemma process_payment_marks_order:
  assumes order: "getOrder db (Finite (rat_of_int oid)) = Inr (Some order)"
    and owner: "userId order = uid"
    and body: "paymentSchema b = Some (rat_of_int oid, totalAmount order)"
  shows "getOrder (snd (post_process_payment now pid db (Some uid) b))
           (Finite (rat_of_int oid)) =
         Inr (Some (order\<lparr>paymentId := Some pid, paymentStatus := ''completed'',
                            updatedAt := now\<rparr>))"
proof -
  let ?set = "\<lambda>r. r\<lparr>paymentId := Some pid, paymentStatus := ''completed'', updatedAt := now\<rparr>"
  let ?db1 = "db\<lparr>orders := update_where order_id oid ?set (orders db)\<rparr>"
  let ?R = "post_process_payment now pid db (Some uid) b"
  note found = getOrder_found [OF order]
  have "orders (snd ?R) = orders ?db1"
    using order owner body found(3)
    by (auto simp: post_process_payment_def updateOrderPayment_def Let_def
        split: sum.splits dest: updateUserLoyaltyPoints_orders)
  then have "first_row (select_where order_id oid (orders (snd ?R))) = Some (?set order)"
    using found(2) by (simp add: first_row_select_update)
  then show ?thesis
    unfolding getOrder_int [OF found(1)] by simp
qed

text \<open>
  The credit: when \<^verbatim>\<open>Math.floor(amount / 10)\<close> is the integer \<open>k\<close> and the balance plus
  \<open>k\<close> is between 0 and 2147483647, the request is answered 200 and the balance is the
  balance plus \<open>k\<close>.
\<close>

lemma process_payment_credits:
  assumes order: "getOrder db (Finite (rat_of_int oid)) = Inr (Some order)"
    and owner: "userId order = uid"
    and body: "paymentSchema b = Some (rat_of_int oid, totalAmount order)"
    and u: "getUser db uid = Some u"
    and k: "js_floor (js_div (Finite (totalAmount order)) (Finite 10)) = Finite (rat_of_int k)"
    and fits: "0 \<le> loyaltyPoints u + k" "loyaltyPoints u + k \<le> 2147483647"
  shows "status_code (fst (post_process_payment now pid db (Some uid) b)) = 200 \<and>
         getUser (snd (post_process_payment now pid db (Some uid) b)) uid =
           Some (u\<lparr>loyaltyPoints := loyaltyPoints u + k\<rparr>)"
proof -
  let ?set = "\<lambda>r. r\<lparr>paymentId := Some pid, paymentStatus := ''completed'', updatedAt := now\<rparr>"
  let ?db1 = "db\<lparr>orders := update_where order_id oid ?set (orders db)\<rparr>"
  let ?bal = "\<lambda>r. r\<lparr>loyaltyPoints := loyaltyPoints u + k\<rparr>"
  let ?db2 = "?db1\<lparr>users := update_where user_id uid ?bal (users ?db1)\<rparr>"
  note found = getOrder_found [OF order]
  have u1: "getUser ?db1 uid = Some u"
    using u by (simp add: getUser_def)
  have w: "updateUserLoyaltyPoints ?db1 uid (Finite (rat_of_int k)) = Inr (Some (?bal u), ?db2)"
    by (rule updateUserLoyaltyPoints_stored [OF u1 fits])
  have res: "post_process_payment now pid db (Some uid) b =
      (Success 200
         \<lparr> reply_success = True, reply_orderId = rat_of_int oid, reply_paymentId = pid,
           reply_paymentStatus = ''completed'',
           reply_updatedOrder = Some (?set order) \<rparr>,
       ?db2)"
    unfolding post_process_payment_def
    using order owner body found(2,3)
    by (simp add: updateOrderPayment_def Let_def k w first_row_returning
        del: js_floor.simps js_div.simps(1))
  have "getUser ?db2 uid = Some (?bal u)"
    using u by (simp add: getUser_def first_row_select_update)
  then show ?thesis by (simp add: res)
qed

text \<open>
  When the balance plus \<open>k\<close> is above 2147483647 the update of the balance raises: the
  request is answered 500, the balance is unchanged and the order stays marked
  (\<open>process_payment_marks_order\<close>).
\<close>

lemma process_payment_credit_raises:
  assumes order: "getOrder db (Finite (rat_of_int oid)) = Inr (Some order)"
    and owner: "userId order = uid"
    and body: "paymentSchema b = Some (rat_of_int oid, totalAmount order)"
    and u: "getUser db uid = Some u"
    and k: "js_floor (js_div (Finite (totalAmount order)) (Finite 10)) = Finite (rat_of_int k)"
    and above: "2147483647 < loyaltyPoints u + k" "loyaltyPoints u + k < 2 ^ 53"
  shows "status_code (fst (post_process_payment now pid db (Some uid) b)) = 500 \<and>
         users (snd (post_process_payment now pid db (Some uid) b)) = users db"
proof -
  let ?set = "\<lambda>r. r\<lparr>paymentId := Some pid, paymentStatus := ''completed'', updatedAt := now\<rparr>"
  let ?db1 = "db\<lparr>orders := update_where order_id oid ?set (orders db)\<rparr>"
  note found = getOrder_found [OF order]
  have u1: "getUser ?db1 uid = Some u"
    using u by (simp add: getUser_def)
  have w: "updateUserLoyaltyPoints ?db1 uid (Finite (rat_of_int k)) = Inl IntegerOutOfRange"
    by (rule updateUserLoyaltyPoints_overflow [OF u1 above])
  have res: "post_process_payment now pid db (Some uid) b =
      (Failure 500 ''Error processing payment'', ?db1)"
    unfolding post_process_payment_def
    using order owner body found(2,3)
    by (simp add: updateOrderPayment_def Let_def k w del: js_floor.simps js_div.simps(1))
  show ?thesis by (simp add: res)
qed

lemma floor_tenth_of_97: "js_floor (js_div (Finite 97) (Finite 10)) = Finite (rat_of_int 9)"
  by code_simp

text \<open>
  Claim C10. For a request of the owner against an existing order, whatever else the
  body holds: if the submitted amount is not the stored total, the request is answered
  400 and the store is unchanged; so a request that is answered 200 or changes the store
  submitted the stored total. A request with the stored total and a valid body marks the
  payment of the order \<open>completed\<close>; and when \<^verbatim>\<open>Math.floor(amount / 10)\<close> is \<open>k\<close> and the
  balance plus \<open>k\<close> is between 0 and 2147483647, it is answered 200 and the balance
  afterwards is the balance plus \<open>k\<close>.
\<close>

theorem process_payment_amount_check:
  assumes "getOrder db (Finite (rat_of_int oid)) = Inr (Some order)"
    and "userId order = uid"
    and "body_orderId b = JNumber (rat_of_int oid)"
  shows "(body_amount b \<noteq> JNumber (totalAmount order) \<longrightarrow>
            status_code (fst (post_process_payment now pid db (Some uid) b)) = 400 \<and>
            snd (post_process_payment now pid db (Some uid) b) = db) \<and>
         (status_code (fst (post_process_payment now pid db (Some uid) b)) = 200 \<or>
          snd (post_process_payment now pid db (Some uid) b) \<noteq> db \<longrightarrow>
            body_amount b = JNumber (totalAmount order)) \<and>
         (paymentSchema b = Some (rat_of_int oid, totalAmount order) \<longrightarrow>
            getOrder (snd (post_process_payment now pid db (Some uid) b))
              (Finite (rat_of_int oid)) =
            Inr (Some (order\<lparr>paymentId := Some pid, paymentStatus := ''completed'',
                               updatedAt := now\<rparr>))) \<and>
         (paymentSchema b = Some (rat_of_int oid, totalAmount order) \<and>
          getUser db uid = Some u \<and>
          js_floor (js_div (Finite (totalAmount order)) (Finite 10)) = Finite (rat_of_int k) \<and>
          0 \<le> loyaltyPoints u + k \<and> loyaltyPoints u + k \<le> 2147483647 \<longrightarrow>
            status_code (fst (post_process_payment now pid db (Some uid) b)) = 200 \<and>
            getUser (snd (post_process_payment now pid db (Some uid) b)) uid =
              Some (u\<lparr>loyaltyPoints := loyaltyPoints u + k\<rparr>))"
proof -
  have a: "body_amount b \<noteq> JNumber (totalAmount order) \<longrightarrow>
      status_code (fst (post_process_payment now pid db (Some uid) b)) = 400 \<and>
      snd (post_process_payment now pid db (Some uid) b) = db"
    using process_payment_mismatch [OF assms] by blast
  then have b: "status_code (fst (post_process_payment now pid db (Some uid) b)) = 200 \<or>
      snd (post_process_payment now pid db (Some uid) b) \<noteq> db \<longrightarrow>
      body_amount b = JNumber (totalAmount order)"
    by auto
  have c: "paymentSchema b = Some (rat_of_int oid, totalAmount order) \<longrightarrow>
      getOrder (snd (post_process_payment now pid db (Some uid) b)) (Finite (rat_of_int oid)) =
      Inr (Some (order\<lparr>paymentId := Some pid, paymentStatus := ''completed'',
                         updatedAt := now\<rparr>))"
    using process_payment_marks_order [OF assms(1,2)] by blast
  have d: "paymentSchema b = Some (rat_of_int oid, totalAmount order) \<and>
      getUser db uid = Some u \<and>
      js_floor (js_div (Finite (totalAmount order)) (Finite 10)) = Finite (rat_of_int k) \<and>
      0 \<le> loyaltyPoints u + k \<and> loyaltyPoints u + k \<le> 2147483647 \<longrightarrow>
      status_code (fst (post_process_payment now pid db (Some uid) b)) = 200 \<and>
      getUser (snd (post_process_payment now pid db (Some uid) b)) uid =
        Some (u\<lparr>loyaltyPoints := loyaltyPoints u + k\<rparr>)"
    using process_payment_credits [OF assms(1,2)] by blast
  from a b c d show ?thesis by blast
qed

theorem process_payment_amount_check_witness:
  "status_code (fst (post_process_payment 1500 ''pay_1'' shop_db (Some 7) (pay 96))) = 400 \<and>
   snd (post_process_payment 1500 ''pay_1'' shop_db (Some 7) (pay 96)) = shop_db \<and>
   status_code (fst (post_process_payment 1500 ''pay_1'' shop_db (Some 7) (pay 97))) = 200 \<and>
   getOrder (snd (post_process_payment 1500 ''pay_1'' shop_db (Some 7) (pay 97))) (Finite 5) =
     Inr (Some (order5\<lparr>paymentId := Some ''pay_1'', paymentStatus := ''completed'',
                        updatedAt := 1500\<rparr>)) \<and>
   getUser (snd (post_process_payment 1500 ''pay_1'' shop_db (Some 7) (pay 97))) 7 =
     Some (alice\<lparr>loyaltyPoints := 109\<rparr>)"
proof -
  have g: "getOrder shop_db (Finite (rat_of_int 5)) = Inr (Some order5)"
    by (simp add: getOrder_def int32_def shop_db_def empty_db_def order5_def select_where_def)
  have o: "userId order5 = 7" by (simp add: order5_def)
  have u: "getUser shop_db 7 = Some alice"
    by (simp add: getUser_def shop_db_def empty_db_def alice_def select_where_def)
  have t: "totalAmount order5 = 97" by (simp add: order5_def)
  have b96: "body_orderId (pay 96) = JNumber (rat_of_int 5)" by (simp add: pay_def)
  have b97: "body_orderId (pay 97) = JNumber (rat_of_int 5)" by (simp add: pay_def)
  have s97: "paymentSchema (pay 97) = Some (rat_of_int 5, totalAmount order5)"
    by (simp add: paymentSchema_def pay_def t)
  have k: "js_floor (js_div (Finite (totalAmount order5)) (Finite 10)) = Finite (rat_of_int 9)"
    unfolding t by (rule floor_tenth_of_97)
  have bal: "loyaltyPoints alice = 100" by (simp add: alice_def)
  have "status_code (fst (post_process_payment 1500 ''pay_1'' shop_db (Some 7) (pay 96))) = 400 \<and>
      snd (post_process_payment 1500 ''pay_1'' shop_db (Some 7) (pay 96)) = shop_db"
    using process_payment_amount_check [OF g o b96, of 1500 "''pay_1''" alice 9]
    by (simp add: pay_def t)
  moreover have "status_code (fst (post_process_payment 1500 ''pay_1'' shop_db (Some 7) (pay 97))) = 200 \<and>
      getOrder (snd (post_process_payment 1500 ''pay_1'' shop_db (Some 7) (pay 97))) (Finite 5) =
        Inr (Some (order5\<lparr>paymentId := Some ''pay_1'', paymentStatus := ''completed'',
                           updatedAt := 1500\<rparr>)) \<and>
      getUser (snd (post_process_payment 1500 ''pay_1'' shop_db (Some 7) (pay 97))) 7 =
        Some (alice\<lparr>loyaltyPoints := 109\<rparr>)"
    using process_payment_amount_check [OF g o b97, of 1500 "''pay_1''" alice 9] s97 u k bal
    by simp
  ultimately show ?thesis by simp
qed

text \<open>
  The credit that does not fit: a user with 2147483647 points pays their order of 10.
  The request is answered 500, and the order is marked \<open>completed\<close> all the same.
\<close>

lemma process_payment_full_balance:
  "post_process_payment 1500 ''pay_1'' full_db (Some 8) pay9 =
     (Failure 500 ''Error processing payment'',
      full_db\<lparr>orders := [order9\<lparr>paymentId := Some ''pay_1'', paymentStatus := ''completed'',
                                   updatedAt := 1500\<rparr>]\<rparr>)"
  by code_simp

end
